theory Spec2Isabelle
  imports Main "HOL-Library.Word"
begin

section \<open>JavaScript strings and values\<close>

text \<open>
  A JavaScript string is a sequence of UTF-16 code units; \<open>.length\<close> counts code units.
  Error messages, event names and the JWT secret are literals of the program and are kept
  as ordinary strings.
\<close>

type_synonym code_unit = "16 word"
type_synonym js_string = "code_unit list"
type_synonym object_id = nat
type_synonym date = int
type_synonym socket_id = nat

definition js :: "string \<Rightarrow> js_string" where
  "js s = map (\<lambda>c. of_nat (of_char c)) s"

text \<open>
  \<open>String.prototype.trim\<close> removes leading and trailing WhiteSpace and LineTerminator
  code units (ECMAScript): TAB, LF, VT, FF, CR, SP, NBSP, U+1680, U+2000..U+200A, U+2028,
  U+2029, U+202F, U+205F, U+3000 and U+FEFF.
\<close>

definition is_white_space :: "code_unit \<Rightarrow> bool" where
  "is_white_space c \<longleftrightarrow>
     c \<in> {0x9, 0xA, 0xB, 0xC, 0xD, 0x20, 0xA0, 0x1680, 0x2028, 0x2029, 0x202F, 0x205F,
          0x3000, 0xFEFF}
     \<or> (0x2000 \<le> c \<and> c \<le> 0x200A)"

definition trim :: "js_string \<Rightarrow> js_string" where
  "trim s = rev (dropWhile is_white_space (rev (dropWhile is_white_space s)))"

text \<open>
  The store holds strings as UTF-8. A surrogate code unit that is not part of a pair has
  no UTF-8 encoding and is written as U+FFFD, so what is read back is the string made
  well formed (as \<open>String.prototype.toWellFormed\<close> does); the length in code units is
  the same.
\<close>

definition is_high_surrogate :: "code_unit \<Rightarrow> bool" where
  "is_high_surrogate c \<longleftrightarrow> 0xD800 \<le> c \<and> c \<le> 0xDBFF"

definition is_low_surrogate :: "code_unit \<Rightarrow> bool" where
  "is_low_surrogate c \<longleftrightarrow> 0xDC00 \<le> c \<and> c \<le> 0xDFFF"

fun to_well_formed :: "js_string \<Rightarrow> js_string" where
  "to_well_formed [] = []"
| "to_well_formed [c] = (if is_high_surrogate c \<or> is_low_surrogate c then [0xFFFD] else [c])"
| "to_well_formed (c # d # cs) =
     (if is_high_surrogate c
      then (if is_low_surrogate d then c # d # to_well_formed cs
            else 0xFFFD # to_well_formed (d # cs))
      else if is_low_surrogate c then 0xFFFD # to_well_formed (d # cs)
      else c # to_well_formed (d # cs))"

text \<open>
  The values a client can put into an event payload or into the handshake. Only
  truthiness and \<open>typeof\<close> are observed by the handlers; objects, arrays and functions
  are one opaque constructor. A number is observed for being zero only.
\<close>

datatype js_value =
    JUndefined
  | JNull
  | JBoolean bool
  | JNumber int
  | JString js_string
  | JObject

fun truthy :: "js_value \<Rightarrow> bool" where
  "truthy JUndefined = False"
| "truthy JNull = False"
| "truthy (JBoolean b) = b"
| "truthy (JNumber n) = (n \<noteq> 0)"
| "truthy (JString s) = (s \<noteq> [])"
| "truthy JObject = True"

fun typeof :: "js_value \<Rightarrow> string" where
  "typeof JUndefined = ''undefined''"
| "typeof JNull = ''object''"
| "typeof (JBoolean b) = ''boolean''"
| "typeof (JNumber n) = ''number''"
| "typeof (JString s) = ''string''"
| "typeof JObject = ''object''"

text \<open>Exceptions that the handlers catch or let escape.\<close>

datatype exn =
    TokenExpiredError
  | NotBeforeError
  | JsonWebTokenError
  | CastError
  | ValidationError
  | MongoError
  | TypeError

section \<open>Data model\<close>

text \<open>
  The two collections are lists of documents, each with its \<open>_id\<close>. Of the user
  schema (models/User.js) the fields that the realtime handlers read or write are kept;
  \<open>password\<close> is \<open>None\<close> in a document loaded with \<open>select('-password')\<close>. The
  bookkeeping fields that mongoose maintains for a user (\<open>updatedAt\<close>, \<open>__v\<close>) are not
  modelled.
\<close>

datatype presence = online | offline | away

record user =
  uid :: object_id
  username :: js_string
  email :: js_string
  password :: "js_string option"
  status :: presence
  lastSeen :: date

text \<open>
  A stored message (models/Message.js): the four schema paths, \<open>_id\<close>, and the two
  fields added by \<open>timestamps: true\<close>.
\<close>

record message =
  m_id :: object_id
  m_userId :: object_id
  m_username :: js_string
  m_content :: js_string
  m_timestamp :: date
  m_createdAt :: date
  m_updatedAt :: date

text \<open>A document under construction: the result of \<open>new Message({...})\<close>.\<close>

record message_draft =
  d_id :: object_id
  d_userId :: object_id
  d_username :: js_string
  d_content :: js_string
  d_timestamp :: date

text \<open>
  The plain object with the six fields \<open>_id userId username content timestamp createdAt\<close>:
  an element of the \<open>message:history\<close> array and the payload of \<open>message:new\<close>.
\<close>

record message_payload =
  p_id :: object_id
  p_userId :: object_id
  p_username :: js_string
  p_content :: js_string
  p_timestamp :: date
  p_createdAt :: date

text \<open>
  A socket: its id, the \<open>token\<close> property of \<open>socket.handshake.auth\<close> (\<open>JUndefined\<close> when
  the client sent none), and \<open>socket.user\<close>, which is unset until the middleware binds it.
\<close>

record socket =
  sid :: socket_id
  handshake_token :: js_value
  socket_user :: "user option"

datatype event =
    message_history "message_payload list"
  | message_new message_payload
  | message_error string
  | user_typing object_id js_string bool

text \<open>
  The three ways the handlers emit: \<open>socket.emit\<close>, \<open>io.emit\<close> and
  \<open>socket.broadcast.emit\<close>. An emission is resolved against the sockets connected when it
  is made; each recipient gets one copy.
\<close>

datatype target = ToSocket socket_id | ToAll | ToOthers socket_id

type_synonym emission = "target \<times> event"

fun recipients :: "socket list \<Rightarrow> target \<Rightarrow> socket_id set" where
  "recipients socks (ToSocket i) = {i}"
| "recipients socks ToAll = sid ` set socks"
| "recipients socks (ToOthers i) = sid ` set socks - {i}"

definition received :: "socket list \<Rightarrow> emission list \<Rightarrow> socket_id \<Rightarrow> event list" where
  "received socks ems i = map snd (filter (\<lambda>em. i \<in> recipients socks (fst em)) ems)"

text \<open>
  What the environment decides during one run of a handler: the two clock readings
  (\<open>new Date()\<close> in the handler, and the time mongoose stamps on a saved document), the
  \<open>_id\<close> generated for a new document, and whether the store answers reads and accepts
  writes.
\<close>

record env =
  now :: date
  saved_at :: date
  fresh_id :: object_id
  find_up :: bool
  write_up :: bool

section \<open>The user directory\<close>

text \<open>
  The \<open>id\<close> claim of a decoded token is whatever the token holds: nothing, something that
  does not cast, an ObjectId, or an object of query operators (such as \<open>{$ne: null}\<close>),
  which mongoose passes on as the condition on \<open>_id\<close>.
\<close>

datatype id_value =
    IdUndefined
  | IdMalformed
  | IdObject object_id
  | IdQuery "object_id \<Rightarrow> bool"

definition user_by_id :: "object_id \<Rightarrow> user list \<Rightarrow> user option" where
  "user_by_id i us = find (\<lambda>u. uid u = i) us"

text \<open>
  \<open>User.findById(id).select('-password')\<close>, that is \<open>findOne({ _id: id })\<close>: a malformed
  id fails the cast before the store is asked; \<open>findById(undefined)\<close> queries for
  \<open>_id: null\<close> and finds nothing; query operators select the first document whose
  \<open>_id\<close> satisfies them.
\<close>

definition User_findById :: "env \<Rightarrow> id_value \<Rightarrow> user list \<Rightarrow> exn + user option" where
  "User_findById e i us =
     (case i of
        IdMalformed \<Rightarrow> Inl CastError
      | IdUndefined \<Rightarrow> (if find_up e then Inr None else Inl MongoError)
      | IdObject k \<Rightarrow>
          (if find_up e
           then Inr (map_option (\<lambda>u. u\<lparr>password := None\<rparr>) (user_by_id k us))
           else Inl MongoError)
      | IdQuery matches \<Rightarrow>
          (if find_up e
           then Inr (map_option (\<lambda>u. u\<lparr>password := None\<rparr>)
                       (find (\<lambda>u. matches (uid u)) us))
           else Inl MongoError))"

fun update_one :: "object_id \<Rightarrow> (user \<Rightarrow> user) \<Rightarrow> user list \<Rightarrow> user list" where
  "update_one i f [] = []"
| "update_one i f (u # us) = (if uid u = i then f u # us else u # update_one i f us)"

text \<open>\<open>User.findByIdAndUpdate(id, update)\<close>; no document with that id means no change.\<close>

definition User_findByIdAndUpdate ::
  "env \<Rightarrow> object_id \<Rightarrow> (user \<Rightarrow> user) \<Rightarrow> user list \<Rightarrow> exn + user list" where
  "User_findByIdAndUpdate e i f us =
     (if write_up e then Inr (update_one i f us) else Inl MongoError)"

text \<open>
  What holds of every username stored through the user schema and read back: trimmed by
  the \<open>trim: true\<close> setter, between 3 and 30 code units long, and well formed.
\<close>

definition username_valid :: "js_string \<Rightarrow> bool" where
  "username_valid n \<longleftrightarrow>
     trim n = n \<and> 3 \<le> length n \<and> length n \<le> 30 \<and> to_well_formed n = n"

section \<open>The message store\<close>

text \<open>\<open>new Message({userId, username, content, timestamp})\<close> runs the \<open>trim\<close> setters.\<close>

definition new_Message ::
  "object_id \<Rightarrow> object_id \<Rightarrow> js_string \<Rightarrow> js_string \<Rightarrow> date \<Rightarrow> message_draft" where
  "new_Message oid user_id name body ts =
     \<lparr>d_id = oid, d_userId = user_id, d_username = trim name, d_content = trim body,
      d_timestamp = ts\<rparr>"

text \<open>
  The validators of messageSchema: \<open>username\<close> required, \<open>content\<close> required and at most
  1000 long (\<open>userId\<close> is always given by the handler).
\<close>

definition validate :: "message_draft \<Rightarrow> bool" where
  "validate d \<longleftrightarrow> d_username d \<noteq> [] \<and> d_content d \<noteq> [] \<and> length (d_content d) \<le> 1000"

text \<open>
  \<open>message.save()\<close>: validate, stamp \<open>createdAt\<close> and \<open>updatedAt\<close>, insert. It resolves
  to the document in memory, whose strings are as the handler gave them; the store holds
  them as it encodes them.
\<close>

definition stored :: "message \<Rightarrow> message" where
  "stored m = m\<lparr>m_username := to_well_formed (m_username m),
                 m_content := to_well_formed (m_content m)\<rparr>"

definition save :: "env \<Rightarrow> message list \<Rightarrow> message_draft \<Rightarrow> exn + (message list \<times> message)" where
  "save e msgs d =
     (if \<not> validate d then Inl ValidationError
      else if \<not> write_up e then Inl MongoError
      else
        (let saved = \<lparr>m_id = d_id d, m_userId = d_userId d, m_username = d_username d,
                      m_content = d_content d, m_timestamp = d_timestamp d,
                      m_createdAt = saved_at e, m_updatedAt = saved_at e\<rparr>
         in Inr (msgs @ [stored saved], saved)))"

definition select_fields :: "message \<Rightarrow> message_payload" where
  "select_fields m =
     \<lparr>p_id = m_id m, p_userId = m_userId m, p_username = m_username m,
      p_content = m_content m, p_timestamp = m_timestamp m, p_createdAt = m_createdAt m\<rparr>"

text \<open>
  \<open>Message.find().sort({ timestamp: 1 }).limit(50).select(...).lean()\<close>: sort by
  \<open>timestamp\<close> ascending, keep the first 50 of that order, project. (The store leaves the
  order of equal timestamps open; the model keeps insertion order among them.)
\<close>

definition find_sort_limit_select :: "env \<Rightarrow> message list \<Rightarrow> exn + message_payload list" where
  "find_sort_limit_select e msgs =
     (if find_up e then Inr (map select_fields (take 50 (sort_key m_timestamp msgs)))
      else Inl MongoError)"

section \<open>socketHandlers/messageHandlers.js\<close>

definition handleLoadMessages :: "env \<Rightarrow> message list \<Rightarrow> socket \<Rightarrow> emission list" where
  "handleLoadMessages e msgs socket =
     (case find_sort_limit_select e msgs of
        Inr found \<Rightarrow> [(ToSocket (sid socket), message_history found)]
      | Inl err \<Rightarrow> [(ToSocket (sid socket), message_error ''Failed to load message history'')])"

text \<open>
  The argument of a \<open>message:send\<close> event. The handler's parameter is the pattern
  \<open>{ content }\<close>: with no argument (or \<open>null\<close>) binding it throws a TypeError before the
  \<open>try\<close> block is entered; with any other argument \<open>content\<close> is that property of it,
  \<open>JUndefined\<close> when it has none.
\<close>

datatype send_data = NoPayload | Payload js_value

text \<open>
  The first guard:
  \<open>!content || typeof content !== 'string' || content.trim().length === 0\<close>.
\<close>

definition content_missing :: "js_value \<Rightarrow> bool" where
  "content_missing content \<longleftrightarrow>
     \<not> truthy content \<or> typeof content \<noteq> ''string'' \<or>
     (case content of JString c \<Rightarrow> length (trim c) = 0 | _ \<Rightarrow> True)"

text \<open>
  The handler returns the store after it and what it emitted; \<open>Inl\<close> is a rejected
  promise, which nothing handles (see \<open>step\<close>). An unset \<open>socket.user\<close> throws inside the
  \<open>try\<close> block and is caught like a failed save.
\<close>

definition handleMessageSend ::
  "env \<Rightarrow> message list \<Rightarrow> socket \<Rightarrow> send_data \<Rightarrow> exn + (message list \<times> emission list)" where
  "handleMessageSend e msgs socket data =
     (case data of
        NoPayload \<Rightarrow> Inl TypeError
      | Payload content \<Rightarrow>
          if content_missing content
          then Inr (msgs, [(ToSocket (sid socket), message_error ''Message content is required'')])
          else
            (case content of
               JString c \<Rightarrow>
                 if length c > 1000
                 then Inr (msgs, [(ToSocket (sid socket),
                                   message_error ''Message content cannot exceed 1000 characters'')])
                 else
                   (case socket_user socket of
                      None \<Rightarrow>
                        Inr (msgs, [(ToSocket (sid socket), message_error ''Failed to send message'')])
                    | Some u \<Rightarrow>
                        (case save e msgs
                                (new_Message (fresh_id e) (uid u) (username u) (trim c) (now e)) of
                           Inl err \<Rightarrow>
                             Inr (msgs,
                                  [(ToSocket (sid socket), message_error ''Failed to send message'')])
                         | Inr (msgs', savedMessage) \<Rightarrow>
                             Inr (msgs',
                                  [(ToAll,
                                    message_new
                                      \<lparr>p_id = m_id savedMessage,
                                       p_userId = m_userId savedMessage,
                                       p_username = m_username savedMessage,
                                       p_content = m_content savedMessage,
                                       p_timestamp = m_timestamp savedMessage,
                                       p_createdAt = m_createdAt savedMessage\<rparr>)])))
             | _ \<Rightarrow>
                 Inr (msgs, [(ToSocket (sid socket), message_error ''Message content is required'')])))"

definition handleTypingIndicator :: "socket \<Rightarrow> bool \<Rightarrow> exn + emission list" where
  "handleTypingIndicator socket isTyping =
     (case socket_user socket of
        None \<Rightarrow> Inl TypeError
      | Some u \<Rightarrow> Inr [(ToOthers (sid socket), user_typing (uid u) (username u) isTyping)])"

section \<open>middleware/auth.js: socketAuth\<close>

text \<open>
  \<open>jwt.verify(token, secret)\<close> belongs to the jsonwebtoken library and is a parameter:
  it throws, or returns the decoded payload, of which the middleware reads \<open>id\<close> only.
  In that library \<open>TokenExpiredError\<close> and \<open>NotBeforeError\<close> are subclasses of
  \<open>JsonWebTokenError\<close>.
\<close>

type_synonym verifier = "js_value \<Rightarrow> string \<Rightarrow> exn + id_value"

definition instanceof_TokenExpiredError :: "exn \<Rightarrow> bool" where
  "instanceof_TokenExpiredError err \<longleftrightarrow> err = TokenExpiredError"

definition instanceof_JsonWebTokenError :: "exn \<Rightarrow> bool" where
  "instanceof_JsonWebTokenError err \<longleftrightarrow>
     err = JsonWebTokenError \<or> err = TokenExpiredError \<or> err = NotBeforeError"

text \<open>\<open>process.env.JWT_SECRET || 'your-secret-key'\<close>: unset and empty both fall through.\<close>

definition secret :: "string option \<Rightarrow> string" where
  "secret JWT_SECRET =
     (case JWT_SECRET of
        None \<Rightarrow> ''your-secret-key''
      | Some v \<Rightarrow> (if v = [] then ''your-secret-key'' else v))"

text \<open>The inner \<open>catch\<close> block: the argument given to \<open>next\<close>.\<close>

definition catch_reason :: "exn \<Rightarrow> string" where
  "catch_reason err =
     (if instanceof_TokenExpiredError err then ''Token expired''
      else if instanceof_JsonWebTokenError err then ''Invalid token''
      else ''Authentication failed'')"

text \<open>
  The middleware returns the user collection and the socket after it, and the argument
  of \<open>next\<close>: \<open>None\<close> for \<open>next()\<close>, \<open>Some msg\<close> for \<open>next(new Error(msg))\<close>. The handshake
  always carries an \<open>auth\<close> object, so the outer \<open>catch\<close> is not reached.
\<close>

definition socketAuth ::
  "verifier \<Rightarrow> string option \<Rightarrow> env \<Rightarrow> user list \<Rightarrow> socket \<Rightarrow>
     user list \<times> socket \<times> string option" where
  "socketAuth verify JWT_SECRET e us socket =
     (let token = handshake_token socket in
      if \<not> truthy token then (us, socket, Some ''Authentication token is required'')
      else
        (case verify token (secret JWT_SECRET) of
           Inl err \<Rightarrow> (us, socket, Some (catch_reason err))
         | Inr decoded_id \<Rightarrow>
             (case User_findById e decoded_id us of
                Inl err \<Rightarrow> (us, socket, Some (catch_reason err))
              | Inr None \<Rightarrow> (us, socket, Some ''User not found'')
              | Inr (Some u) \<Rightarrow>
                  (let socket' = socket\<lparr>socket_user := Some u\<rparr> in
                   case User_findByIdAndUpdate e (uid u) (\<lambda>x. x\<lparr>status := online\<rparr>) us of
                     Inl err \<Rightarrow> (us, socket', Some (catch_reason err))
                   | Inr us' \<Rightarrow> (us', socket', None)))))"

section \<open>The server\<close>

text \<open>
  The process state: the environment variable, the two collections, the sockets that
  are connected (what \<open>io.emit\<close> reaches), the sockets whose history query has been
  started and has not been answered yet, and whether the process has exited.
\<close>

record server =
  JWT_SECRET :: "string option"
  users :: "user list"
  messages :: "message list"
  sockets :: "socket list"
  loading :: "socket list"
  terminated :: bool

text \<open>
  An exception that escapes a listener (thrown in it, or the rejected promise of an
  \<open>async\<close> listener, which the program never handles) ends the Node process: every
  socket is gone without its \<open>disconnect\<close> listener having run, and what was in flight
  is lost. The collections are in the store and stay as they are.
\<close>

definition exit_process :: "server \<Rightarrow> server" where
  "exit_process s = s\<lparr>sockets := [], loading := [], terminated := True\<rparr>"

text \<open>
  \<open>registerMessageHandlers\<close>: \<open>handleLoadMessages(socket)\<close> is called without \<open>await\<close>,
  so it runs up to its query and leaves it in flight; then the three listeners are
  attached. Being connected is what makes the listeners run in \<open>step\<close> below.
\<close>

definition registerMessageHandlers :: "server \<Rightarrow> socket \<Rightarrow> server" where
  "registerMessageHandlers s socket = s\<lparr>loading := loading s @ [socket]\<rparr>"

text \<open>
  A connection attempt: \<open>io.use(socketAuth)\<close>, then the \<open>connection\<close> listener of
  server.js. When the middleware passes an error to \<open>next\<close>, socket.io refuses the
  connection with that message and the listener does not run.
\<close>

definition connect :: "verifier \<Rightarrow> env \<Rightarrow> server \<Rightarrow> socket \<Rightarrow> server \<times> string option" where
  "connect verify e s socket =
     (case socketAuth verify (JWT_SECRET s) e (users s) socket of
        (us', socket', Some reason) \<Rightarrow> (s\<lparr>users := us'\<rparr>, Some reason)
      | (us', socket', None) \<Rightarrow>
          (registerMessageHandlers (s\<lparr>users := us', sockets := sockets s @ [socket']\<rparr>) socket',
           None))"

text \<open>
  The \<open>disconnect\<close> listener; socket.io has taken the socket out of the server. The
  listener is \<open>async\<close> and has no \<open>try\<close>: when the update is refused its promise is
  rejected and the process exits.
\<close>

definition disconnect :: "env \<Rightarrow> server \<Rightarrow> socket \<Rightarrow> server" where
  "disconnect e s socket =
     (let s' = s\<lparr>sockets := filter (\<lambda>k. sid k \<noteq> sid socket) (sockets s)\<rparr> in
      case socket_user socket of
        None \<Rightarrow> s'
      | Some u \<Rightarrow>
          (case User_findByIdAndUpdate e (uid u)
                  (\<lambda>x. x\<lparr>status := offline, lastSeen := now e\<rparr>) (users s') of
             Inl err \<Rightarrow> exit_process s'
           | Inr us' \<Rightarrow> s'\<lparr>users := us'\<rparr>))"

text \<open>
  What reaches the server: a connection attempt, the store's answer to the history query
  of a socket, the three client events, and a disconnect. Events for a socket that is not
  connected are dropped, and so is a connection attempt when the process has exited. Each
  listener runs as one step; the history query is the one call of the program that is
  started and not awaited, so its answer is a step of its own. A listener whose exception
  or rejected promise escapes (\<open>Inl\<close>) ends the process.
\<close>

datatype input =
    Connection socket env
  | HistoryLoaded socket_id env
  | MessageSend socket_id env send_data
  | TypingStart socket_id
  | TypingStop socket_id
  | Disconnect socket_id env

definition socket_by_id :: "socket_id \<Rightarrow> socket list \<Rightarrow> socket option" where
  "socket_by_id i socks = find (\<lambda>k. sid k = i) socks"

fun step :: "verifier \<Rightarrow> server \<Rightarrow> input \<Rightarrow> server \<times> emission list" where
  "step verify s (Connection socket e) =
     (if terminated s then (s, []) else (fst (connect verify e s socket), []))"
| "step verify s (HistoryLoaded i e) =
     (case socket_by_id i (loading s) of
        None \<Rightarrow> (s, [])
      | Some socket \<Rightarrow>
          (s\<lparr>loading := remove1 socket (loading s)\<rparr>, handleLoadMessages e (messages s) socket))"
| "step verify s (MessageSend i e data) =
     (case socket_by_id i (sockets s) of
        None \<Rightarrow> (s, [])
      | Some socket \<Rightarrow>
          (case handleMessageSend e (messages s) socket data of
             Inl err \<Rightarrow> (exit_process s, [])
           | Inr (msgs', ems) \<Rightarrow> (s\<lparr>messages := msgs'\<rparr>, ems)))"
| "step verify s (TypingStart i) =
     (case socket_by_id i (sockets s) of
        None \<Rightarrow> (s, [])
      | Some socket \<Rightarrow>
          (case handleTypingIndicator socket True of
             Inl err \<Rightarrow> (exit_process s, [])
           | Inr ems \<Rightarrow> (s, ems)))"
| "step verify s (TypingStop i) =
     (case socket_by_id i (sockets s) of
        None \<Rightarrow> (s, [])
      | Some socket \<Rightarrow>
          (case handleTypingIndicator socket False of
             Inl err \<Rightarrow> (exit_process s, [])
           | Inr ems \<Rightarrow> (s, ems)))"
| "step verify s (Disconnect i e) =
     (case socket_by_id i (sockets s) of
        None \<Rightarrow> (s, [])
      | Some socket \<Rightarrow> (disconnect e s socket, []))"

fun run :: "verifier \<Rightarrow> server \<Rightarrow> input list \<Rightarrow> server \<times> emission list" where
  "run verify s [] = (s, [])"
| "run verify s (i # is) =
     (case step verify s i of
        (s1, out1) \<Rightarrow> (case run verify s1 is of (s2, out2) \<Rightarrow> (s2, out1 @ out2)))"


text \<open>
  The replay of socket \<open>i\<close> has completed within the emissions \<open>out\<close>: its
  \<open>message:history\<close> batch or its load error has been emitted to it.
\<close>

fun replay_event :: "event \<Rightarrow> bool" where
  "replay_event (message_history batch) = True"
| "replay_event (message_error msg) = (msg = ''Failed to load message history'')"
| "replay_event _ = False"

definition replay_completed :: "socket_id \<Rightarrow> emission list \<Rightarrow> bool" where
  "replay_completed i out \<longleftrightarrow> list_ex (\<lambda>em. fst em = ToSocket i \<and> replay_event (snd em)) out"

section \<open>The history batch in the words of the specification\<close>

text \<open>
  The most recent \<open>n\<close> messages of the store, ordered by send time ascending: of the
  ascending order, the last \<open>n\<close>. This follows the specification and the comment of
  \<open>handleLoadMessages\<close> (``Query last 50 messages''), not its query.
\<close>

definition most_recent_ascending :: "nat \<Rightarrow> message list \<Rightarrow> message list" where
  "most_recent_ascending n msgs =
     (let ascending = sort_key m_timestamp msgs
      in drop (length ascending - n) ascending)"

section \<open>Facts about trimming\<close>

lemma length_trim: "length (trim s) \<le> length s"
proof -
  have "length (trim s) \<le> length (dropWhile is_white_space s)"
    unfolding trim_def by (simp add: length_dropWhile_le order_trans [OF length_dropWhile_le])
  also have "\<dots> \<le> length s" by (rule length_dropWhile_le)
  finally show ?thesis .
qed



lemma trim_Nil [simp]: "trim [] = []"
  by (simp add: trim_def)

lemma content_missing_JString: "content_missing (JString c) \<longleftrightarrow> trim c = []"
  by (cases "c = []") (auto simp: content_missing_def)

lemma content_missing_not_string: "\<forall>c. v \<noteq> JString c \<Longrightarrow> content_missing v"
  by (cases v) (auto simp: content_missing_def)

lemma received_single:
  "received socks [(t, ev)] i = (if i \<in> recipients socks t then [ev] else [])"
  by (simp add: received_def)

lemma dropWhile_replicate_append:
  "0 < n \<Longrightarrow> \<not> P a \<Longrightarrow> dropWhile P (replicate n a @ ys) = replicate n a @ ys"
  by (cases n) auto

lemma trim_replicate_space:
  assumes "0 < n" and "\<not> is_white_space a" and "is_white_space b"
  shows "trim (replicate n a @ [b]) = replicate n a"
proof -
  have "dropWhile is_white_space (replicate n a @ [b]) = replicate n a @ [b]"
    using assms by (simp add: dropWhile_replicate_append)
  moreover have "dropWhile is_white_space (replicate n a) = replicate n a"
    using dropWhile_replicate_append [of n is_white_space a "[]"] assms by simp
  ultimately show ?thesis
    using assms by (simp add: trim_def)
qed

lemma to_well_formed_no_surrogates:
  "list_all (\<lambda>c. \<not> is_high_surrogate c \<and> \<not> is_low_surrogate c) s \<Longrightarrow> to_well_formed s = s"
  by (induction s rule: to_well_formed.induct) simp_all

lemma to_well_formed_js:
  "list_all (\<lambda>c. of_char c < (128 :: nat)) s \<Longrightarrow> to_well_formed (js s) = js s"
proof (rule to_well_formed_no_surrogates)
  assume a: "list_all (\<lambda>c. of_char c < (128 :: nat)) s"
  have "\<And>c. of_char c < (128 :: nat) \<Longrightarrow>
          \<not> is_high_surrogate (of_nat (of_char c)) \<and> \<not> is_low_surrogate (of_nat (of_char c))"
  proof -
    fix c :: char
    assume "of_char c < (128 :: nat)"
    then have "unat (of_nat (of_char c) :: code_unit) < 128"
      by (simp add: unat_of_nat)
    then show "\<not> is_high_surrogate (of_nat (of_char c)) \<and> \<not> is_low_surrogate (of_nat (of_char c))"
      by (simp add: is_high_surrogate_def is_low_surrogate_def word_le_nat_alt)
  qed
  then show "list_all (\<lambda>c. \<not> is_high_surrogate c \<and> \<not> is_low_surrogate c) (js s)"
    using a by (auto simp: js_def list_all_iff)
qed

section \<open>Sending a message\<close>

text \<open>
  With a payload, the first guard answers as the specification says: a \<open>content\<close> that is
  absent, is not a string, or is a string that is empty after trimming is answered with
  the single event \<open>message:error {message: "Message content is required"}\<close>, emitted to
  the sending socket only; the store is left as it was and no \<open>message:new\<close> is emitted.
  The guard comes first: the length of the content plays no part.
\<close>

lemma content_required_with_payload:
  assumes "\<forall>c. v = JString c \<longrightarrow> trim c = []"
  shows "handleMessageSend e msgs socket (Payload v) =
           Inr (msgs, [(ToSocket (sid socket), message_error ''Message content is required'')])
         \<and> received socks
              [(ToSocket (sid socket), message_error ''Message content is required'')]
              (sid socket) = [message_error ''Message content is required'']
         \<and> (\<forall>i. i \<noteq> sid socket \<longrightarrow>
               received socks
                 [(ToSocket (sid socket), message_error ''Message content is required'')] i = [])"
proof -
  have "content_missing v"
  proof (cases "\<exists>c. v = JString c")
    case True
    then show ?thesis using assms by (auto simp: content_missing_JString)
  next
    case False
    then show ?thesis by (simp add: content_missing_not_string)
  qed
  then show ?thesis
    by (simp add: handleMessageSend_def received_single)
qed

lemma trim_all_white:
  assumes "list_all is_white_space s"
  shows "trim s = []"
proof -
  have "dropWhile is_white_space s = []"
    using assms by (simp add: list_all_iff)
  then show ?thesis
    unfolding trim_def by (simp only: rev.simps dropWhile.simps)
qed

lemma content_required_with_payload_examples:
  "handleMessageSend \<lparr>now = 1000, saved_at = 1001, fresh_id = 7, find_up = True, write_up = True\<rparr>
     [] \<lparr>sid = 1, handshake_token = JUndefined, socket_user = None\<rparr> (Payload JUndefined) =
     Inr ([], [(ToSocket 1, message_error ''Message content is required'')])
   \<and> handleMessageSend \<lparr>now = 1000, saved_at = 1001, fresh_id = 7, find_up = True, write_up = True\<rparr>
     [] \<lparr>sid = 1, handshake_token = JUndefined, socket_user = None\<rparr> (Payload (JNumber 5)) =
     Inr ([], [(ToSocket 1, message_error ''Message content is required'')])
   \<and> trim (replicate 1001 0x20) = []
   \<and> handleMessageSend \<lparr>now = 1000, saved_at = 1001, fresh_id = 7, find_up = True, write_up = True\<rparr>
     [] \<lparr>sid = 1, handshake_token = JUndefined, socket_user = None\<rparr>
     (Payload (JString (replicate 1001 0x20))) =
     Inr ([], [(ToSocket 1, message_error ''Message content is required'')])"
proof -
  have blank: "trim (replicate 1001 0x20) = []"
    by (rule trim_all_white) (simp add: list_all_iff is_white_space_def)
  have h1: "\<forall>c. JUndefined = JString c \<longrightarrow> trim c = []" by simp
  have h2: "\<forall>c. JNumber 5 = JString c \<longrightarrow> trim c = []" by simp
  have h3: "\<forall>c. JString (replicate 1001 0x20) = JString c \<longrightarrow> trim c = []"
    using blank by simp
  show ?thesis
    using content_required_with_payload [OF h1] content_required_with_payload [OF h2]
      content_required_with_payload [OF h3] blank
    by simp
qed

text \<open>
  C9 at a \<open>message:send\<close> that carries no payload (the client emitted the event without an
  argument, or with \<open>null\<close>): its content is absent, yet no \<open>message:error\<close> is emitted.
  The parameter pattern \<open>{ content }\<close> is bound before the \<open>try\<close> block is
  entered, so the TypeError escapes the handler's \<open>catch\<close>; the listener drops the rejected
  promise and the process exits, taking every connected socket with it. Here socket 1 of
  two connected sockets sends the event.
\<close>

theorem message_send_without_payload:
  "handleMessageSend e msgs socket NoPayload = Inl TypeError
   \<and> step verify
       \<lparr>JWT_SECRET = None, users = [], messages = [],
        sockets =
          [\<lparr>sid = 1, handshake_token = JUndefined,
            socket_user = Some \<lparr>uid = 3, username = js ''alice'', email = js ''a@b.io'',
                                 password = None, status = online, lastSeen = 0\<rparr>\<rparr>,
           \<lparr>sid = 2, handshake_token = JUndefined, socket_user = None\<rparr>],
        loading = [], terminated = False\<rparr>
       (MessageSend 1 e NoPayload) =
     (\<lparr>JWT_SECRET = None, users = [], messages = [], sockets = [], loading = [],
       terminated = True\<rparr>,
      [])"
  by (simp add: handleMessageSend_def socket_by_id_def exit_process_def)

text \<open>
  C3, as the code has it. The limit is checked on the content as received,
  \<open>content.length > 1000\<close>, not on the trimmed content. A \<open>message:send\<close> whose content is
  a string that is non-empty after trimming and longer than 1000 code units before
  trimming (so in particular every content whose trimmed length exceeds 1000) is answered
  with the single event
  \<open>message:error {message: "Message content cannot exceed 1000 characters"}\<close>, emitted to
  the sending socket only; nothing is stored and no \<open>message:new\<close> is emitted.
\<close>

theorem message_send_too_long:
  assumes "trim c \<noteq> []"
    and "1000 < length (trim c) \<or> 1000 < length c"
  shows "handleMessageSend e msgs socket (Payload (JString c)) =
           Inr (msgs, [(ToSocket (sid socket),
                        message_error ''Message content cannot exceed 1000 characters'')])
         \<and> received socks
              [(ToSocket (sid socket),
                message_error ''Message content cannot exceed 1000 characters'')]
              (sid socket) = [message_error ''Message content cannot exceed 1000 characters'']
         \<and> (\<forall>i. i \<noteq> sid socket \<longrightarrow>
               received socks
                 [(ToSocket (sid socket),
                   message_error ''Message content cannot exceed 1000 characters'')] i = [])"
proof -
  have "1000 < length c"
    using assms(2) length_trim [of c] by linarith
  moreover have "\<not> content_missing (JString c)"
    using assms(1) by (simp add: content_missing_JString)
  ultimately show ?thesis
    by (simp add: handleMessageSend_def received_single)
qed

theorem message_send_too_long_witness:
  "trim (replicate 1001 0x61) = replicate 1001 0x61
   \<and> handleMessageSend \<lparr>now = 1000, saved_at = 1001, fresh_id = 7, find_up = True, write_up = True\<rparr>
        [] \<lparr>sid = 1, handshake_token = JUndefined, socket_user = None\<rparr>
        (Payload (JString (replicate 1001 0x61))) =
      Inr ([], [(ToSocket 1, message_error ''Message content cannot exceed 1000 characters'')])"
proof -
  have t: "trim (replicate 1001 0x61) = replicate 1001 (0x61 :: code_unit)"
    using dropWhile_replicate_append [of 1001 is_white_space "0x61 :: code_unit" "[]"]
    by (simp add: trim_def is_white_space_def)
  have h1: "trim (replicate 1001 (0x61 :: code_unit)) \<noteq> []"
    unfolding t by simp
  have h2: "1000 < length (trim (replicate 1001 (0x61 :: code_unit)))
            \<or> 1000 < length (replicate 1001 (0x61 :: code_unit))"
    by simp
  show ?thesis
    using message_send_too_long [OF h1 h2] t by simp
qed

text \<open>
  C3, as the claim states it, fails on its last part: 1000 letters followed by one space
  are 1001 code units as received and 1000 after trimming, and the handler rejects them
  with the length error instead of accepting them.
\<close>

theorem message_send_trailing_space_counterexample:
  "length (replicate 1000 (0x61 :: code_unit) @ [0x20]) = 1001
   \<and> length (trim (replicate 1000 0x61 @ [0x20])) = 1000
   \<and> handleMessageSend \<lparr>now = 1000, saved_at = 1001, fresh_id = 7, find_up = True, write_up = True\<rparr>
        []
        \<lparr>sid = 1, handshake_token = JUndefined,
         socket_user = Some \<lparr>uid = 3, username = js ''alice'', email = js ''a@b.io'',
                              password = None, status = online, lastSeen = 0\<rparr>\<rparr>
        (Payload (JString (replicate 1000 0x61 @ [0x20]))) =
      Inr ([], [(ToSocket 1, message_error ''Message content cannot exceed 1000 characters'')])"
proof -
  have t: "trim (replicate 1000 0x61 @ [0x20]) = replicate 1000 (0x61 :: code_unit)"
    by (rule trim_replicate_space) (simp_all add: is_white_space_def)
  then have "\<not> content_missing (JString (replicate 1000 0x61 @ [0x20]))"
    by (simp add: content_missing_JString)
  then show ?thesis
    using t by (simp add: handleMessageSend_def)
qed

lemma js_alice: "js ''alice'' = [0x61, 0x6C, 0x69, 0x63, 0x65]"
  by (simp add: js_def)

lemma trim_letters:
  "\<not> is_white_space a \<Longrightarrow> \<not> is_white_space b \<Longrightarrow> trim (a # xs @ [b]) = a # xs @ [b]"
  by (simp add: trim_def)

lemma well_formed_alice: "to_well_formed (js ''alice'') = js ''alice''"
  by (rule to_well_formed_js) simp

lemma username_valid_alice: "username_valid (js ''alice'')"
  using trim_letters [of "0x61" "0x65" "[0x6C, 0x69, 0x63]"] well_formed_alice
  by (simp add: username_valid_def js_alice is_white_space_def)

lemma trim_hi: "trim [0x20, 0x68, 0x69, 0x20] = [0x68, 0x69]"
  by (simp add: trim_def is_white_space_def)




text \<open>
  C4. When the content passes both guards and \<open>message.save()\<close> throws, the handler
  emits the single event \<open>message:error {message: "Failed to send message"}\<close> to the
  sending socket only; the store is unchanged and no \<open>message:new\<close> is emitted, since
  \<open>io.emit\<close> stands after the awaited save inside the same \<open>try\<close> block.
\<close>

theorem message_send_save_fails:
  assumes "socket_user socket = Some u"
    and "trim c \<noteq> []"
    and "length c \<le> 1000"
    and "save e msgs (new_Message (fresh_id e) (uid u) (username u) (trim c) (now e)) = Inl err"
  shows "handleMessageSend e msgs socket (Payload (JString c)) =
           Inr (msgs, [(ToSocket (sid socket), message_error ''Failed to send message'')])
         \<and> received socks [(ToSocket (sid socket), message_error ''Failed to send message'')]
              (sid socket) = [message_error ''Failed to send message'']
         \<and> (\<forall>i. i \<noteq> sid socket \<longrightarrow>
               received socks
                 [(ToSocket (sid socket), message_error ''Failed to send message'')] i = [])"
proof -
  have "\<not> content_missing (JString c)"
    using assms(2) by (simp add: content_missing_JString)
  then show ?thesis
    using assms(1,3,4) by (simp add: handleMessageSend_def received_single)
qed

theorem message_send_save_fails_witness:
  "save \<lparr>now = 1000, saved_at = 1001, fresh_id = 7, find_up = True, write_up = False\<rparr> []
     (new_Message 7 3 (js ''alice'') (trim [0x20, 0x68, 0x69, 0x20]) 1000) = Inl MongoError
   \<and> handleMessageSend
        \<lparr>now = 1000, saved_at = 1001, fresh_id = 7, find_up = True, write_up = False\<rparr>
        []
        \<lparr>sid = 1, handshake_token = JUndefined,
         socket_user = Some \<lparr>uid = 3, username = js ''alice'', email = js ''a@b.io'',
                              password = None, status = online, lastSeen = 0\<rparr>\<rparr>
        (Payload (JString [0x20, 0x68, 0x69, 0x20])) =
      Inr ([], [(ToSocket 1, message_error ''Failed to send message'')])"
proof -
  have name: "trim (js ''alice'') = js ''alice''"
    using username_valid_alice by (simp add: username_valid_def)
  have h2: "trim [0x20, 0x68, 0x69, 0x20] \<noteq> []"
    by (simp add: trim_hi)
  have h3: "length [0x20, 0x68, 0x69, 0x20 :: code_unit] \<le> 1000"
    by simp
  have h4: "save \<lparr>now = 1000, saved_at = 1001, fresh_id = 7, find_up = True, write_up = False\<rparr>
              [] (new_Message 7 3 (js ''alice'') (trim [0x20, 0x68, 0x69, 0x20]) 1000) =
            Inl MongoError"
    using name by (simp add: save_def validate_def new_Message_def trim_def is_white_space_def js_alice)
  show ?thesis
    using message_send_save_fails
      [where socket = "\<lparr>sid = 1, handshake_token = JUndefined,
           socket_user = Some \<lparr>uid = 3, username = js ''alice'', email = js ''a@b.io'',
                                password = None, status = online, lastSeen = 0\<rparr>\<rparr>"
         and u = "\<lparr>uid = 3, username = js ''alice'', email = js ''a@b.io'',
            password = None, status = online, lastSeen = 0\<rparr>"
         and c = "[0x20, 0x68, 0x69, 0x20]"
         and e = "\<lparr>now = 1000, saved_at = 1001, fresh_id = 7, find_up = True, write_up = False\<rparr>"
         and msgs = "[]" and err = MongoError]
      h2 h3 h4
    by simp
qed

section \<open>Typing signals\<close>

lemma socket_by_id_sid: "socket_by_id i socks = Some socket \<Longrightarrow> sid socket = i"
  by (auto simp: socket_by_id_def find_Some_iff)

lemma socket_by_id_mem: "socket_by_id i socks = Some socket \<Longrightarrow> socket \<in> set socks"
  by (auto simp: socket_by_id_def find_Some_iff)

text \<open>
  C8. A \<open>user:typing:start\<close> or \<open>user:typing:stop\<close> from a connected socket with a bound
  user emits one \<open>user:typing\<close> event with \<open>socket.broadcast.emit\<close>, carrying the id and
  name of \<open>socket.user\<close> and \<open>isTyping\<close> true for start, false for stop. Every other
  connected socket receives it once, the originating socket receives nothing, and the
  server state (both collections) is unchanged.
\<close>

theorem typing_relayed_to_others:
  assumes "socket_by_id i (sockets s) = Some socket"
    and "socket_user socket = Some u"
  shows "step verify s (TypingStart i) =
           (s, [(ToOthers i, user_typing (uid u) (username u) True)])
         \<and> step verify s (TypingStop i) =
           (s, [(ToOthers i, user_typing (uid u) (username u) False)])
         \<and> (\<forall>b. received (sockets s) [(ToOthers i, user_typing (uid u) (username u) b)] i = [])
         \<and> (\<forall>b. \<forall>k \<in> set (sockets s). sid k \<noteq> i \<longrightarrow>
               received (sockets s) [(ToOthers i, user_typing (uid u) (username u) b)] (sid k) =
               [user_typing (uid u) (username u) b])"
proof -
  have "sid socket = i"
    using assms(1) by (rule socket_by_id_sid)
  then show ?thesis
    using assms by (simp add: handleTypingIndicator_def received_single)
qed

theorem typing_relayed_to_others_witness:
  "step (\<lambda>t k. Inl JsonWebTokenError)
     \<lparr>JWT_SECRET = None, users = [], messages = [],
      sockets =
        [\<lparr>sid = 1, handshake_token = JUndefined,
          socket_user = Some \<lparr>uid = 3, username = js ''alice'', email = js ''a@b.io'',
                               password = None, status = online, lastSeen = 0\<rparr>\<rparr>,
         \<lparr>sid = 2, handshake_token = JUndefined, socket_user = None\<rparr>],
      loading = [], terminated = False\<rparr>
     (TypingStart 1) =
   (\<lparr>JWT_SECRET = None, users = [], messages = [],
      sockets =
        [\<lparr>sid = 1, handshake_token = JUndefined,
          socket_user = Some \<lparr>uid = 3, username = js ''alice'', email = js ''a@b.io'',
                               password = None, status = online, lastSeen = 0\<rparr>\<rparr>,
         \<lparr>sid = 2, handshake_token = JUndefined, socket_user = None\<rparr>],
      loading = [], terminated = False\<rparr>,
    [(ToOthers 1, user_typing 3 (js ''alice'') True)])
   \<and> received
        [\<lparr>sid = 1, handshake_token = JUndefined,
          socket_user = Some \<lparr>uid = 3, username = js ''alice'', email = js ''a@b.io'',
                               password = None, status = online, lastSeen = 0\<rparr>\<rparr>,
         \<lparr>sid = 2, handshake_token = JUndefined, socket_user = None\<rparr>]
        [(ToOthers 1, user_typing 3 (js ''alice'') True)] 2 =
      [user_typing 3 (js ''alice'') True]
   \<and> received
        [\<lparr>sid = 1, handshake_token = JUndefined,
          socket_user = Some \<lparr>uid = 3, username = js ''alice'', email = js ''a@b.io'',
                               password = None, status = online, lastSeen = 0\<rparr>\<rparr>,
         \<lparr>sid = 2, handshake_token = JUndefined, socket_user = None\<rparr>]
        [(ToOthers 1, user_typing 3 (js ''alice'') True)] 1 = []"
proof -
  have h1: "socket_by_id 1
      (sockets \<lparr>JWT_SECRET = None, users = [], messages = [],
        sockets =
          [\<lparr>sid = 1, handshake_token = JUndefined,
            socket_user = Some \<lparr>uid = 3, username = js ''alice'', email = js ''a@b.io'',
                                 password = None, status = online, lastSeen = 0\<rparr>\<rparr>,
           \<lparr>sid = 2, handshake_token = JUndefined, socket_user = None\<rparr>],
        loading = [], terminated = False\<rparr>) =
      Some \<lparr>sid = 1, handshake_token = JUndefined,
            socket_user = Some \<lparr>uid = 3, username = js ''alice'', email = js ''a@b.io'',
                                 password = None, status = online, lastSeen = 0\<rparr>\<rparr>"
    by (simp add: socket_by_id_def)
  have h2: "socket_user \<lparr>sid = 1, handshake_token = JUndefined,
            socket_user = Some \<lparr>uid = 3, username = js ''alice'', email = js ''a@b.io'',
                                 password = None, status = online, lastSeen = 0\<rparr>\<rparr> =
      Some \<lparr>uid = 3, username = js ''alice'', email = js ''a@b.io'',
            password = None, status = online, lastSeen = 0\<rparr>"
    by simp
  show ?thesis
    using typing_relayed_to_others [OF h1 h2, of "\<lambda>t k. Inl JsonWebTokenError"]
    by simp
qed

section \<open>History replay\<close>

lemma handleLoadMessages_found:
  "find_up e \<Longrightarrow>
   handleLoadMessages e msgs socket =
     [(ToSocket (sid socket),
       message_history (map select_fields (take 50 (sort_key m_timestamp msgs))))]"
  by (simp add: handleLoadMessages_def find_sort_limit_select_def)

lemma sort_key_ascending_store:
  "sort_key m_timestamp
     (map (\<lambda>n. \<lparr>m_id = n, m_userId = 3, m_username = name, m_content = body,
                 m_timestamp = int n, m_createdAt = int n, m_updatedAt = int n\<rparr>) [a..<b]) =
   map (\<lambda>n. \<lparr>m_id = n, m_userId = 3, m_username = name, m_content = body,
               m_timestamp = int n, m_createdAt = int n, m_updatedAt = int n\<rparr>) [a..<b]"
proof (rule sort_key_id_if_sorted)
  have "map m_timestamp
          (map (\<lambda>n. \<lparr>m_id = n, m_userId = 3, m_username = name, m_content = body,
                      m_timestamp = int n, m_createdAt = int n, m_updatedAt = int n\<rparr>) [a..<b]) =
        map int [a..<b]"
    by (simp add: comp_def)
  moreover have "sorted (map int [a..<b])"
    by (simp add: sorted_map sorted_wrt_iff_nth_less)
  ultimately show "sorted (map m_timestamp
          (map (\<lambda>n. \<lparr>m_id = n, m_userId = 3, m_username = name, m_content = body,
                      m_timestamp = int n, m_createdAt = int n, m_updatedAt = int n\<rparr>) [a..<b]))"
    by (simp only:)
qed

text \<open>
  C2 at a store of 51 messages with send times 1 to 51: the query sorts ascending and
  then keeps the first 50, so the batch holds the messages with send times 1 to 50. The
  newest message (send time 51) is left out and the oldest is kept, while the 50 most
  recent messages are those with send times 2 to 51.
\<close>

theorem history_replay_at_51_messages:
  "handleLoadMessages
     \<lparr>now = 1000, saved_at = 1001, fresh_id = 7, find_up = True, write_up = True\<rparr>
     (map (\<lambda>n. \<lparr>m_id = n, m_userId = 3, m_username = js ''alice'', m_content = js ''hi'',
                 m_timestamp = int n, m_createdAt = int n, m_updatedAt = int n\<rparr>) [1..<52])
     \<lparr>sid = 1, handshake_token = JUndefined, socket_user = None\<rparr> =
   [(ToSocket 1,
     message_history
       (map (\<lambda>n. \<lparr>p_id = n, p_userId = 3, p_username = js ''alice'', p_content = js ''hi'',
                   p_timestamp = int n, p_createdAt = int n\<rparr>) [1..<51]))]
   \<and> map select_fields
       (most_recent_ascending 50
          (map (\<lambda>n. \<lparr>m_id = n, m_userId = 3, m_username = js ''alice'', m_content = js ''hi'',
                      m_timestamp = int n, m_createdAt = int n, m_updatedAt = int n\<rparr>) [1..<52])) =
     map (\<lambda>n. \<lparr>p_id = n, p_userId = 3, p_username = js ''alice'', p_content = js ''hi'',
                 p_timestamp = int n, p_createdAt = int n\<rparr>) [2..<52]
   \<and> map (\<lambda>n. \<lparr>p_id = n, p_userId = 3, p_username = js ''alice'', p_content = js ''hi'',
                 p_timestamp = int n, p_createdAt = int n\<rparr>) [1..<51] \<noteq>
     map (\<lambda>n. \<lparr>p_id = n, p_userId = 3, p_username = js ''alice'', p_content = js ''hi'',
                 p_timestamp = int n, p_createdAt = int n\<rparr>) [2..<52]"
proof -
  let ?mk = "\<lambda>n. \<lparr>m_id = n, m_userId = 3, m_username = js ''alice'', m_content = js ''hi'',
                   m_timestamp = int n, m_createdAt = int n, m_updatedAt = int n\<rparr>"
  let ?pk = "\<lambda>n. \<lparr>p_id = n, p_userId = 3, p_username = js ''alice'', p_content = js ''hi'',
                   p_timestamp = int n, p_createdAt = int n\<rparr>"
  let ?e = "\<lparr>now = 1000, saved_at = 1001, fresh_id = 7, find_up = True, write_up = True\<rparr>"
  let ?k = "\<lparr>sid = 1, handshake_token = JUndefined, socket_user = None\<rparr>"
  have sel: "\<And>ns. map select_fields (map ?mk ns) = map ?pk ns"
    by (simp add: select_fields_def)
  have t50: "take 50 [1..<52] = [1..<51]"
    by simp
  have len: "length (map ?mk [1..<52]) - 50 = Suc 0"
    by simp
  have "drop (Suc 0) [1..<52] = [1 + Suc 0..<52]"
    by (rule drop_upt)
  also have "1 + Suc 0 = 2"
    by simp
  finally have d1: "drop (Suc 0) [1..<52] = [2..<52]" .
  have "handleLoadMessages ?e (map ?mk [1..<52]) ?k =
          [(ToSocket (sid ?k),
            message_history (map select_fields (take 50 (sort_key m_timestamp (map ?mk [1..<52])))))]"
    by (rule handleLoadMessages_found) simp
  also have "sort_key m_timestamp (map ?mk [1..<52]) = map ?mk [1..<52]"
    by (rule sort_key_ascending_store)
  also have "take 50 (map ?mk [1..<52]) = map ?mk [1..<51]"
    by (simp only: take_map t50)
  also have "map select_fields (map ?mk [1..<51]) = map ?pk [1..<51]"
    by (rule sel)
  also have "sid ?k = 1"
    by simp
  finally have first:
    "handleLoadMessages ?e (map ?mk [1..<52]) ?k = [(ToSocket 1, message_history (map ?pk [1..<51]))]" .
  have "most_recent_ascending 50 (map ?mk [1..<52]) =
          drop (length (sort_key m_timestamp (map ?mk [1..<52])) - 50)
            (sort_key m_timestamp (map ?mk [1..<52]))"
    by (simp only: most_recent_ascending_def Let_def)
  also have "sort_key m_timestamp (map ?mk [1..<52]) = map ?mk [1..<52]"
    by (rule sort_key_ascending_store)
  also have "drop (length (map ?mk [1..<52]) - 50) (map ?mk [1..<52]) = map ?mk [2..<52]"
    by (simp only: len drop_map d1)
  finally have "map select_fields (most_recent_ascending 50 (map ?mk [1..<52])) =
                  map select_fields (map ?mk [2..<52])"
    by (rule arg_cong)
  also have "\<dots> = map ?pk [2..<52]"
    by (rule sel)
  finally have second:
    "map select_fields (most_recent_ascending 50 (map ?mk [1..<52])) = map ?pk [2..<52]" .
  have "hd (map ?pk [1..<51]) \<noteq> hd (map ?pk [2..<52])"
    by (simp add: hd_map upt_conv_Cons)
  then have third: "map ?pk [1..<51] \<noteq> map ?pk [2..<52]"
    by metis
  show ?thesis
    using first second third by blast
qed

section \<open>Connection authentication\<close>

lemma User_findById_error:
  "User_findById e i us = Inl err \<Longrightarrow> err = CastError \<or> err = MongoError"
  by (auto simp: User_findById_def split: id_value.splits if_splits)

lemma catch_reason_cases:
  "catch_reason TokenExpiredError = ''Token expired''"
  "catch_reason JsonWebTokenError = ''Invalid token''"
  "catch_reason NotBeforeError = ''Invalid token''"
  "catch_reason CastError = ''Authentication failed''"
  "catch_reason ValidationError = ''Authentication failed''"
  "catch_reason MongoError = ''Authentication failed''"
  "catch_reason TypeError = ''Authentication failed''"
  by (simp_all add: catch_reason_def instanceof_TokenExpiredError_def
        instanceof_JsonWebTokenError_def)

lemma catch_reason_other:
  "err \<noteq> TokenExpiredError \<Longrightarrow> err \<noteq> JsonWebTokenError \<Longrightarrow> err \<noteq> NotBeforeError \<Longrightarrow>
   catch_reason err = ''Authentication failed''"
  by (simp add: catch_reason_def instanceof_TokenExpiredError_def
        instanceof_JsonWebTokenError_def)

lemma catch_reason_range:
  "catch_reason err \<in> {''Token expired'', ''Invalid token'', ''Authentication failed''}"
  by (simp add: catch_reason_def)

lemma socketAuth_rejected_users:
  "socketAuth verify J e us socket = (us', socket', Some reason) \<Longrightarrow> us' = us"
  by (auto simp: socketAuth_def Let_def split: if_splits sum.splits option.splits)

lemma socketAuth_reason_range:
  "socketAuth verify J e us socket = (us', socket', Some reason) \<Longrightarrow>
   reason \<in> {''Authentication token is required'', ''Token expired'', ''Invalid token'',
             ''Authentication failed'', ''User not found''}"
  using catch_reason_range
  by (fastforce simp: socketAuth_def Let_def split: if_splits sum.splits option.splits)

lemma connect_rejected:
  assumes "snd (connect verify e s socket) = Some reason"
  shows "fst (connect verify e s socket) = s
         \<and> reason \<in> {''Authentication token is required'', ''Token expired'', ''Invalid token'',
                      ''Authentication failed'', ''User not found''}"
proof -
  obtain us' socket' r where a: "socketAuth verify (JWT_SECRET s) e (users s) socket = (us', socket', r)"
    by (cases "socketAuth verify (JWT_SECRET s) e (users s) socket") auto
  with assms have r: "r = Some reason"
    by (cases r) (auto simp: connect_def)
  with a have a': "socketAuth verify (JWT_SECRET s) e (users s) socket = (us', socket', Some reason)"
    by simp
  then have "us' = users s"
    by (rule socketAuth_rejected_users)
  then have "fst (connect verify e s socket) = s"
    using a' by (simp add: connect_def)
  moreover have "reason \<in> {''Authentication token is required'', ''Token expired'',
        ''Invalid token'', ''Authentication failed'', ''User not found''}"
    using a' by (rule socketAuth_reason_range)
  ultimately show ?thesis
    by (rule conjI)
qed

text \<open>
  C5, as the code has it. A connection attempt is refused with the reason that the
  middleware's guards give its failure: no credential (a falsy \<open>token\<close>) gives
  "Authentication token is required"; a \<open>TokenExpiredError\<close> from the verifier gives
  "Token expired"; every other \<open>JsonWebTokenError\<close> from the verifier (structure,
  signature, and also a token that is not active yet, \<open>NotBeforeError\<close>) gives
  "Invalid token"; any other exception, from the verifier, from the user lookup (an id
  that does not cast, a store that does not answer) or from the status update, gives
  "Authentication failed"; and a lookup that succeeds and finds no user gives
  "User not found". Whenever the attempt is refused, the reason is one of these five and
  the server is left exactly as it was: no socket is added, no history query is started,
  and the user collection is unchanged.
\<close>

theorem connection_refused_with_reason:
  "(\<not> truthy (handshake_token socket) \<longrightarrow>
      connect verify e s socket = (s, Some ''Authentication token is required''))
   \<and> (truthy (handshake_token socket)
        \<and> verify (handshake_token socket) (secret (JWT_SECRET s)) = Inl TokenExpiredError \<longrightarrow>
      connect verify e s socket = (s, Some ''Token expired''))
   \<and> (truthy (handshake_token socket)
        \<and> (verify (handshake_token socket) (secret (JWT_SECRET s)) = Inl JsonWebTokenError
           \<or> verify (handshake_token socket) (secret (JWT_SECRET s)) = Inl NotBeforeError) \<longrightarrow>
      connect verify e s socket = (s, Some ''Invalid token''))
   \<and> (truthy (handshake_token socket)
        \<and> verify (handshake_token socket) (secret (JWT_SECRET s)) = Inl err
        \<and> err \<noteq> TokenExpiredError \<and> err \<noteq> JsonWebTokenError \<and> err \<noteq> NotBeforeError \<longrightarrow>
      connect verify e s socket = (s, Some ''Authentication failed''))
   \<and> (truthy (handshake_token socket)
        \<and> verify (handshake_token socket) (secret (JWT_SECRET s)) = Inr i
        \<and> User_findById e i (users s) = Inl err \<longrightarrow>
      connect verify e s socket = (s, Some ''Authentication failed''))
   \<and> (truthy (handshake_token socket)
        \<and> verify (handshake_token socket) (secret (JWT_SECRET s)) = Inr i
        \<and> User_findById e i (users s) = Inr (Some u)
        \<and> \<not> write_up e \<longrightarrow>
      connect verify e s socket = (s, Some ''Authentication failed''))
   \<and> (truthy (handshake_token socket)
        \<and> verify (handshake_token socket) (secret (JWT_SECRET s)) = Inr i
        \<and> User_findById e i (users s) = Inr None \<longrightarrow>
      connect verify e s socket = (s, Some ''User not found''))
   \<and> (\<forall>reason. snd (connect verify e s socket) = Some reason \<longrightarrow>
        fst (connect verify e s socket) = s
        \<and> reason \<in> {''Authentication token is required'', ''Token expired'', ''Invalid token'',
                     ''Authentication failed'', ''User not found''})"
proof -
  have absent: "\<not> truthy (handshake_token socket) \<Longrightarrow>
      connect verify e s socket = (s, Some ''Authentication token is required'')"
    by (simp add: connect_def socketAuth_def)
  have thrown: "\<And>x. truthy (handshake_token socket) \<Longrightarrow>
      verify (handshake_token socket) (secret (JWT_SECRET s)) = Inl x \<Longrightarrow>
      connect verify e s socket = (s, Some (catch_reason x))"
    by (simp add: connect_def socketAuth_def)
  have store: "truthy (handshake_token socket) \<Longrightarrow>
      verify (handshake_token socket) (secret (JWT_SECRET s)) = Inr i \<Longrightarrow>
      User_findById e i (users s) = Inl err \<Longrightarrow>
      connect verify e s socket = (s, Some ''Authentication failed'')"
    using User_findById_error [of e i "users s" err]
    by (auto simp: connect_def socketAuth_def catch_reason_cases)
  have update: "truthy (handshake_token socket) \<Longrightarrow>
      verify (handshake_token socket) (secret (JWT_SECRET s)) = Inr i \<Longrightarrow>
      User_findById e i (users s) = Inr (Some u) \<Longrightarrow> \<not> write_up e \<Longrightarrow>
      connect verify e s socket = (s, Some ''Authentication failed'')"
    by (simp add: connect_def socketAuth_def User_findByIdAndUpdate_def catch_reason_cases)
  have unknown: "truthy (handshake_token socket) \<Longrightarrow>
      verify (handshake_token socket) (secret (JWT_SECRET s)) = Inr i \<Longrightarrow>
      User_findById e i (users s) = Inr None \<Longrightarrow>
      connect verify e s socket = (s, Some ''User not found'')"
    by (simp add: connect_def socketAuth_def)
  show ?thesis
    using absent thrown [of TokenExpiredError] thrown [of JsonWebTokenError]
      thrown [of NotBeforeError] thrown [of err] catch_reason_other [of err]
      store update unknown connect_rejected [of verify e s socket]
    by (auto simp: catch_reason_cases)
qed

theorem connection_refused_with_reason_witness:
  "connect (\<lambda>t k. Inr (IdObject 3))
       \<lparr>now = 1000, saved_at = 1001, fresh_id = 7, find_up = True, write_up = True\<rparr>
       \<lparr>JWT_SECRET = None, users = [], messages = [], sockets = [], loading = [], terminated = False\<rparr>
       \<lparr>sid = 1, handshake_token = JUndefined, socket_user = None\<rparr> =
     (\<lparr>JWT_SECRET = None, users = [], messages = [], sockets = [], loading = [], terminated = False\<rparr>,
      Some ''Authentication token is required'')
   \<and> connect (\<lambda>t k. Inl TokenExpiredError)
       \<lparr>now = 1000, saved_at = 1001, fresh_id = 7, find_up = True, write_up = True\<rparr>
       \<lparr>JWT_SECRET = None, users = [], messages = [], sockets = [], loading = [], terminated = False\<rparr>
       \<lparr>sid = 1, handshake_token = JString (js ''t''), socket_user = None\<rparr> =
     (\<lparr>JWT_SECRET = None, users = [], messages = [], sockets = [], loading = [], terminated = False\<rparr>,
      Some ''Token expired'')
   \<and> connect (\<lambda>t k. Inl JsonWebTokenError)
       \<lparr>now = 1000, saved_at = 1001, fresh_id = 7, find_up = True, write_up = True\<rparr>
       \<lparr>JWT_SECRET = None, users = [], messages = [], sockets = [], loading = [], terminated = False\<rparr>
       \<lparr>sid = 1, handshake_token = JString (js ''t''), socket_user = None\<rparr> =
     (\<lparr>JWT_SECRET = None, users = [], messages = [], sockets = [], loading = [], terminated = False\<rparr>,
      Some ''Invalid token'')
   \<and> connect (\<lambda>t k. Inl TypeError)
       \<lparr>now = 1000, saved_at = 1001, fresh_id = 7, find_up = True, write_up = True\<rparr>
       \<lparr>JWT_SECRET = None, users = [], messages = [], sockets = [], loading = [], terminated = False\<rparr>
       \<lparr>sid = 1, handshake_token = JString (js ''t''), socket_user = None\<rparr> =
     (\<lparr>JWT_SECRET = None, users = [], messages = [], sockets = [], loading = [], terminated = False\<rparr>,
      Some ''Authentication failed'')
   \<and> connect (\<lambda>t k. Inr IdMalformed)
       \<lparr>now = 1000, saved_at = 1001, fresh_id = 7, find_up = True, write_up = True\<rparr>
       \<lparr>JWT_SECRET = None, users = [], messages = [], sockets = [], loading = [], terminated = False\<rparr>
       \<lparr>sid = 1, handshake_token = JString (js ''t''), socket_user = None\<rparr> =
     (\<lparr>JWT_SECRET = None, users = [], messages = [], sockets = [], loading = [], terminated = False\<rparr>,
      Some ''Authentication failed'')
   \<and> connect (\<lambda>t k. Inr (IdObject 3))
       \<lparr>now = 1000, saved_at = 1001, fresh_id = 7, find_up = True, write_up = False\<rparr>
       \<lparr>JWT_SECRET = None,
         users = [\<lparr>uid = 3, username = js ''alice'', email = js ''a@b.io'',
                   password = Some (js ''hash''), status = offline, lastSeen = 0\<rparr>],
         messages = [], sockets = [], loading = [], terminated = False\<rparr>
       \<lparr>sid = 1, handshake_token = JString (js ''t''), socket_user = None\<rparr> =
     (\<lparr>JWT_SECRET = None,
         users = [\<lparr>uid = 3, username = js ''alice'', email = js ''a@b.io'',
                   password = Some (js ''hash''), status = offline, lastSeen = 0\<rparr>],
         messages = [], sockets = [], loading = [], terminated = False\<rparr>,
      Some ''Authentication failed'')
   \<and> connect (\<lambda>t k. Inr (IdObject 4))
       \<lparr>now = 1000, saved_at = 1001, fresh_id = 7, find_up = True, write_up = True\<rparr>
       \<lparr>JWT_SECRET = None,
         users = [\<lparr>uid = 3, username = js ''alice'', email = js ''a@b.io'',
                   password = Some (js ''hash''), status = offline, lastSeen = 0\<rparr>],
         messages = [], sockets = [], loading = [], terminated = False\<rparr>
       \<lparr>sid = 1, handshake_token = JString (js ''t''), socket_user = None\<rparr> =
     (\<lparr>JWT_SECRET = None,
         users = [\<lparr>uid = 3, username = js ''alice'', email = js ''a@b.io'',
                   password = Some (js ''hash''), status = offline, lastSeen = 0\<rparr>],
         messages = [], sockets = [], loading = [], terminated = False\<rparr>,
      Some ''User not found'')"
proof -
  let ?e = "\<lparr>now = 1000, saved_at = 1001, fresh_id = 7, find_up = True, write_up = True\<rparr>"
  let ?down = "\<lparr>now = 1000, saved_at = 1001, fresh_id = 7, find_up = True, write_up = False\<rparr>"
  let ?empty = "\<lparr>JWT_SECRET = None, users = [], messages = [], sockets = [], loading = [], terminated = False\<rparr>"
  let ?one = "\<lparr>JWT_SECRET = None,
         users = [\<lparr>uid = 3, username = js ''alice'', email = js ''a@b.io'',
                   password = Some (js ''hash''), status = offline, lastSeen = 0\<rparr>],
         messages = [], sockets = [], loading = [], terminated = False\<rparr>"
  let ?anon = "\<lparr>sid = 1, handshake_token = JUndefined, socket_user = None\<rparr>"
  let ?sock = "\<lparr>sid = 1, handshake_token = JString (js ''t''), socket_user = None\<rparr>"
  have c1: "connect (\<lambda>t k. Inr (IdObject 3)) ?e ?empty ?anon = (?empty, Some ''Authentication token is required'')"
    using connection_refused_with_reason
      [where verify = "(\<lambda>t k. Inr (IdObject 3))"
         and e = "?e"
         and s = "?empty"
         and socket = "?anon"]
    by (simp add: User_findById_def user_by_id_def secret_def js_def)
  have c2: "connect (\<lambda>t k. Inl TokenExpiredError) ?e ?empty ?sock = (?empty, Some ''Token expired'')"
    using connection_refused_with_reason
      [where verify = "(\<lambda>t k. Inl TokenExpiredError)"
         and e = "?e"
         and s = "?empty"
         and socket = "?sock"]
    by (simp add: User_findById_def user_by_id_def secret_def js_def)
  have c3: "connect (\<lambda>t k. Inl JsonWebTokenError) ?e ?empty ?sock = (?empty, Some ''Invalid token'')"
    using connection_refused_with_reason
      [where verify = "(\<lambda>t k. Inl JsonWebTokenError)"
         and e = "?e"
         and s = "?empty"
         and socket = "?sock"]
    by (simp add: User_findById_def user_by_id_def secret_def js_def)
  have c4: "connect (\<lambda>t k. Inl TypeError) ?e ?empty ?sock = (?empty, Some ''Authentication failed'')"
    using connection_refused_with_reason
      [where verify = "(\<lambda>t k. Inl TypeError)"
         and e = "?e"
         and s = "?empty"
         and socket = "?sock"
         and err = "TypeError"]
    by (simp add: User_findById_def user_by_id_def secret_def js_def)
  have c5: "connect (\<lambda>t k. Inr IdMalformed) ?e ?empty ?sock = (?empty, Some ''Authentication failed'')"
    using connection_refused_with_reason
      [where verify = "(\<lambda>t k. Inr IdMalformed)"
         and e = "?e"
         and s = "?empty"
         and socket = "?sock"
         and i = "IdMalformed"
         and err = "CastError"]
    by (simp add: User_findById_def user_by_id_def secret_def js_def)
  have c6: "connect (\<lambda>t k. Inr (IdObject 3)) ?down ?one ?sock = (?one, Some ''Authentication failed'')"
    using connection_refused_with_reason
      [where verify = "(\<lambda>t k. Inr (IdObject 3))"
         and e = "?down"
         and s = "?one"
         and socket = "?sock"
         and i = "IdObject 3"
         and u = "\<lparr>uid = 3, username = js ''alice'', email = js ''a@b.io'', password = None, status = offline, lastSeen = 0\<rparr>"]
    by (simp add: User_findById_def user_by_id_def secret_def js_def)
  have c7: "connect (\<lambda>t k. Inr (IdObject 4)) ?e ?one ?sock = (?one, Some ''User not found'')"
    using connection_refused_with_reason
      [where verify = "(\<lambda>t k. Inr (IdObject 4))"
         and e = "?e"
         and s = "?one"
         and socket = "?sock"
         and i = "IdObject 4"]
    by (simp add: User_findById_def user_by_id_def secret_def js_def)
  show ?thesis
    using c1 c2 c3 c4 c5 c6 c7 by (simp only: simp_thms)
qed

text \<open>
  C5, as the claim states it, fails in two places. A token that is not active yet makes
  the verifier throw \<open>NotBeforeError\<close>, which is neither an expiry nor a structural or
  signature failure; the claim gives it "Authentication failed", the middleware answers
  "Invalid token", since \<open>NotBeforeError\<close> is a \<open>JsonWebTokenError\<close>. And an id that does
  not cast to an ObjectId resolves to no user; the claim gives it "User not found", the
  middleware answers "Authentication failed", since the lookup throws.
\<close>

theorem connection_refused_reason_counterexample:
  "connect (\<lambda>t k. Inl NotBeforeError)
       \<lparr>now = 1000, saved_at = 1001, fresh_id = 7, find_up = True, write_up = True\<rparr>
       \<lparr>JWT_SECRET = None, users = [], messages = [], sockets = [], loading = [], terminated = False\<rparr>
       \<lparr>sid = 1, handshake_token = JString (js ''t''), socket_user = None\<rparr> =
     (\<lparr>JWT_SECRET = None, users = [], messages = [], sockets = [], loading = [], terminated = False\<rparr>,
      Some ''Invalid token'')
   \<and> connect (\<lambda>t k. Inr IdMalformed)
       \<lparr>now = 1000, saved_at = 1001, fresh_id = 7, find_up = True, write_up = True\<rparr>
       \<lparr>JWT_SECRET = None,
         users = [\<lparr>uid = 3, username = js ''alice'', email = js ''a@b.io'',
                   password = Some (js ''hash''), status = offline, lastSeen = 0\<rparr>],
         messages = [], sockets = [], loading = [], terminated = False\<rparr>
       \<lparr>sid = 1, handshake_token = JString (js ''t''), socket_user = None\<rparr> =
     (\<lparr>JWT_SECRET = None,
         users = [\<lparr>uid = 3, username = js ''alice'', email = js ''a@b.io'',
                   password = Some (js ''hash''), status = offline, lastSeen = 0\<rparr>],
         messages = [], sockets = [], loading = [], terminated = False\<rparr>,
      Some ''Authentication failed'')"
  by (simp add: connect_def socketAuth_def catch_reason_cases User_findById_def js_def)

lemma user_by_id_uid: "user_by_id i us = Some u \<Longrightarrow> uid u = i"
  by (auto simp: user_by_id_def find_Some_iff)




section \<open>Presence\<close>

lemma find_by_uid:
  assumes "find (\<lambda>u. matches (uid u)) us = Some u0"
  shows "user_by_id (uid u0) us = Some u0"
proof -
  from assms obtain n where n: "n < length us" "matches (uid (us ! n))" "u0 = us ! n"
    and first: "\<forall>j<n. \<not> matches (uid (us ! j))"
    by (auto simp: find_Some_iff)
  have "\<forall>j<n. uid (us ! j) \<noteq> uid u0"
    using first n(2,3) by metis
  then show ?thesis
    unfolding user_by_id_def find_Some_iff using n by blast
qed

lemma User_findById_found:
  assumes "User_findById e i us = Inr (Some u)"
  shows "\<exists>u0. user_by_id (uid u0) us = Some u0 \<and> u = u0\<lparr>password := None\<rparr>"
proof (cases i)
  case IdUndefined
  then show ?thesis using assms by (simp add: User_findById_def split: if_splits)
next
  case IdMalformed
  then show ?thesis using assms by (simp add: User_findById_def)
next
  case (IdObject k)
  then obtain u0 where u0: "user_by_id k us = Some u0" and u: "u = u0\<lparr>password := None\<rparr>"
    using assms by (auto simp: User_findById_def split: if_splits)
  then have "uid u0 = k"
    by (simp add: user_by_id_uid)
  then show ?thesis
    using u0 u by auto
next
  case (IdQuery matches)
  then obtain u0 where u0: "find (\<lambda>u. matches (uid u)) us = Some u0"
    and u: "u = u0\<lparr>password := None\<rparr>"
    using assms by (auto simp: User_findById_def split: if_splits)
  then show ?thesis
    using find_by_uid [OF u0] by auto
qed

lemma socketAuth_accepted:
  assumes "socketAuth verify J e us socket = (us1, socket1, None)"
  shows "\<exists>u0. user_by_id (uid u0) us = Some u0
              \<and> socket1 = socket\<lparr>socket_user := Some (u0\<lparr>password := None\<rparr>)\<rparr>
              \<and> us1 = update_one (uid u0) (\<lambda>x. x\<lparr>status := online\<rparr>) us"
proof -
  have t: "truthy (handshake_token socket)"
    using assms by (auto simp: socketAuth_def Let_def split: if_splits)
  then obtain i where v: "verify (handshake_token socket) (secret J) = Inr i"
    using assms
    by (cases "verify (handshake_token socket) (secret J)") (auto simp: socketAuth_def Let_def)
  obtain u where f: "User_findById e i us = Inr (Some u)"
    using assms t v
    by (cases "User_findById e i us") (auto simp: socketAuth_def Let_def split: option.splits)
  then obtain u0 where u0: "user_by_id (uid u0) us = Some u0"
    and u: "u = u0\<lparr>password := None\<rparr>"
    using User_findById_found by blast
  have "socket1 = socket\<lparr>socket_user := Some u\<rparr>
        \<and> us1 = update_one (uid u) (\<lambda>x. x\<lparr>status := online\<rparr>) us"
    using assms t v f
    by (auto simp: socketAuth_def Let_def User_findByIdAndUpdate_def split: if_splits)
  then show ?thesis
    using u0 u by auto
qed







section \<open>Order of the replay and the session's sends\<close>

lemma replay_completed_append:
  "replay_completed i (out @ out') \<longleftrightarrow> replay_completed i out \<or> replay_completed i out'"
  by (simp add: replay_completed_def)

lemma replay_completed_handleLoadMessages:
  "replay_completed (sid socket) (handleLoadMessages e msgs socket)"
  by (simp add: replay_completed_def handleLoadMessages_def split: sum.splits)

lemma socket_by_id_Some_iff: "socket_by_id i socks \<noteq> None \<longleftrightarrow> i \<in> sid ` set socks"
  by (auto simp: socket_by_id_def find_None_iff)

lemma connect_sockets_loading:
  "sockets (fst (connect verify e s socket)) = sockets s
     \<and> loading (fst (connect verify e s socket)) = loading s
   \<or> (\<exists>socket'. sid socket' = sid socket
         \<and> sockets (fst (connect verify e s socket)) = sockets s @ [socket']
         \<and> loading (fst (connect verify e s socket)) = loading s @ [socket'])"
proof (cases "snd (snd (socketAuth verify (JWT_SECRET s) e (users s) socket))")
  case None
  then obtain us1 socket1 where a:
    "socketAuth verify (JWT_SECRET s) e (users s) socket = (us1, socket1, None)"
    by (cases "socketAuth verify (JWT_SECRET s) e (users s) socket") auto
  then have "sid socket1 = sid socket"
    by (auto dest: socketAuth_accepted)
  then show ?thesis
    using a by (simp add: connect_def registerMessageHandlers_def)
next
  case (Some reason)
  then have "snd (connect verify e s socket) = Some reason"
    by (cases "socketAuth verify (JWT_SECRET s) e (users s) socket") (auto simp: connect_def)
  then have "fst (connect verify e s socket) = s"
    using connect_rejected by blast
  then show ?thesis
    by simp
qed

lemma step_keeps_replay_issued:
  assumes inv: "\<forall>k \<in> set (sockets s). sid k \<in> sid ` set (loading s) \<or> replay_completed (sid k) out"
    and st: "step verify s ev = (s', out')"
  shows "\<forall>k \<in> set (sockets s'). sid k \<in> sid ` set (loading s') \<or> replay_completed (sid k) (out @ out')"
proof (cases ev)
  case (Connection socket e)
  show ?thesis
  proof (cases "terminated s")
    case True
    then show ?thesis
      using st inv Connection by (auto simp: replay_completed_append)
  next
    case False
    then have s': "s' = fst (connect verify e s socket)"
      using st Connection by auto
    show ?thesis
      using connect_sockets_loading [of verify e s socket] inv
      unfolding s' replay_completed_append by auto
  qed
next
  case (HistoryLoaded i e)
  show ?thesis
  proof (cases "socket_by_id i (loading s)")
    case None
    then show ?thesis
      using st inv HistoryLoaded by (auto simp: replay_completed_append)
  next
    case (Some x)
    then have x: "sid x = i"
      by (rule socket_by_id_sid)
    have s': "s' = s\<lparr>loading := remove1 x (loading s)\<rparr>"
      and out': "out' = handleLoadMessages e (messages s) x"
      using st HistoryLoaded Some by auto
    have completed: "replay_completed i out'"
      unfolding out' using replay_completed_handleLoadMessages [of x e "messages s"] x by simp
    show ?thesis
    proof
      fix k
      assume "k \<in> set (sockets s')"
      then have k: "k \<in> set (sockets s)"
        by (simp add: s')
      show "sid k \<in> sid ` set (loading s') \<or> replay_completed (sid k) (out @ out')"
      proof (cases "sid k = i")
        case True
        then show ?thesis
          using completed by (simp add: replay_completed_append)
      next
        case False
        from inv k have "sid k \<in> sid ` set (loading s) \<or> replay_completed (sid k) out"
          by blast
        then show ?thesis
        proof
          assume "sid k \<in> sid ` set (loading s)"
          then obtain y where y: "y \<in> set (loading s)" "sid y = sid k"
            by auto
          then have "y \<noteq> x"
            using False x by auto
          then have "y \<in> set (remove1 x (loading s))"
            using y(1) by simp
          then have "sid y \<in> sid ` set (loading s')"
            by (simp add: s')
          then show ?thesis
            using y(2) by simp
        next
          assume "replay_completed (sid k) out"
          then show ?thesis
            by (simp add: replay_completed_append)
        qed
      qed
    qed
  qed
next
  case (MessageSend i e data)
  then have "sockets s' = [] \<or> sockets s' = sockets s \<and> loading s' = loading s"
    using st by (auto simp: exit_process_def split: option.splits sum.splits)
  then show ?thesis
    using inv by (auto simp: replay_completed_append)
next
  case (TypingStart i)
  then have "sockets s' = [] \<or> sockets s' = sockets s \<and> loading s' = loading s"
    using st by (auto simp: exit_process_def split: option.splits sum.splits)
  then show ?thesis
    using inv by (auto simp: replay_completed_append)
next
  case (TypingStop i)
  then have "sockets s' = [] \<or> sockets s' = sockets s \<and> loading s' = loading s"
    using st by (auto simp: exit_process_def split: option.splits sum.splits)
  then show ?thesis
    using inv by (auto simp: replay_completed_append)
next
  case (Disconnect i e)
  then have "sockets s' = [] \<or> set (sockets s') \<subseteq> set (sockets s) \<and> loading s' = loading s"
    using st
    by (auto simp: disconnect_def exit_process_def Let_def split: option.splits sum.splits)
  then show ?thesis
    using inv unfolding replay_completed_append by fastforce
qed

lemma run_keeps_replay_issued:
  assumes "\<forall>k \<in> set (sockets s). sid k \<in> sid ` set (loading s) \<or> replay_completed (sid k) out"
    and "run verify s evs = (s', out')"
  shows "\<forall>k \<in> set (sockets s'). sid k \<in> sid ` set (loading s') \<or> replay_completed (sid k) (out @ out')"
  using assms
proof (induction evs arbitrary: s out s' out')
  case Nil
  then show ?case by simp
next
  case (Cons ev evs)
  obtain s1 out1 where st: "step verify s ev = (s1, out1)"
    by (cases "step verify s ev") auto
  obtain s2 out2 where rn: "run verify s1 evs = (s2, out2)"
    by (cases "run verify s1 evs") auto
  have res: "s' = s2" "out' = out1 @ out2"
    using Cons.prems(2) st rn by auto
  have "\<forall>k \<in> set (sockets s1). sid k \<in> sid ` set (loading s1) \<or> replay_completed (sid k) (out @ out1)"
    using Cons.prems(1) st by (rule step_keeps_replay_issued)
  then have "\<forall>k \<in> set (sockets s2).
      sid k \<in> sid ` set (loading s2) \<or> replay_completed (sid k) ((out @ out1) @ out2)"
    using rn by (rule Cons.IH)
  then show ?case
    using res by simp
qed

text \<open>
  C7, as the code has it. \<open>registerMessageHandlers\<close> starts the replay before it attaches
  the \<open>message:send\<close> listener, so in every run from a server without sockets, whenever a
  \<open>message:send\<close> of socket \<open>i\<close> would be processed (the socket is connected), the replay
  of \<open>i\<close> has been started: its query is in flight or its batch or error has been emitted.
  That it has completed is not guaranteed: the call is not awaited.
\<close>

theorem replay_issued_before_send_processed:
  assumes "sockets s0 = []"
    and "run verify s0 evs = (s, out)"
    and "socket_by_id i (sockets s) = Some socket"
  shows "socket_by_id i (loading s) \<noteq> None \<or> replay_completed i out"
proof -
  have "\<forall>k \<in> set (sockets s0). sid k \<in> sid ` set (loading s0) \<or> replay_completed (sid k) []"
    using assms(1) by simp
  then have "\<forall>k \<in> set (sockets s). sid k \<in> sid ` set (loading s) \<or> replay_completed (sid k) ([] @ out)"
    using assms(2) by (rule run_keeps_replay_issued)
  moreover have "socket \<in> set (sockets s)"
    using assms(3) by (rule socket_by_id_mem)
  ultimately have "sid socket \<in> sid ` set (loading s) \<or> replay_completed (sid socket) out"
    by simp
  moreover have "sid socket = i"
    using assms(3) by (rule socket_by_id_sid)
  ultimately show ?thesis
    unfolding socket_by_id_Some_iff by simp
qed

theorem replay_issued_before_send_processed_witness:
  "run (\<lambda>t k. Inr (IdObject 3))
        \<lparr>JWT_SECRET = None, users = [\<lparr>uid = 3, username = js ''alice'', email =
        js ''a@b.io'', password = Some (js ''hash''), status = offline, lastSeen = 0\<rparr>],
        messages = [], sockets = [], loading = [], terminated = False\<rparr>
        [Connection \<lparr>sid = 1, handshake_token = JString (js ''t''), socket_user =
         None\<rparr> \<lparr>now = 1000, saved_at = 1001, fresh_id = 7, find_up = True,
         write_up = True\<rparr>] =
     (\<lparr>JWT_SECRET = None, users = [\<lparr>uid = 3, username = js ''alice'', email =
        js ''a@b.io'', password = Some (js ''hash''), status = online, lastSeen = 0\<rparr>],
        messages = [], sockets = [\<lparr>sid = 1, handshake_token = JString (js ''t''),
        socket_user = Some \<lparr>uid = 3, username = js ''alice'', email = js ''a@b.io'',
        password = None, status = offline, lastSeen = 0\<rparr>\<rparr>], loading =
        [\<lparr>sid = 1, handshake_token = JString (js ''t''), socket_user = Some \<lparr>uid
        = 3, username = js ''alice'', email = js ''a@b.io'', password = None, status =
        offline, lastSeen = 0\<rparr>\<rparr>], terminated = False\<rparr>, [])
   \<and> socket_by_id 1 (sockets \<lparr>JWT_SECRET = None, users = [\<lparr>uid = 3, username = js ''alice'', email =
        js ''a@b.io'', password = Some (js ''hash''), status = online, lastSeen = 0\<rparr>],
        messages = [], sockets = [\<lparr>sid = 1, handshake_token = JString (js ''t''),
        socket_user = Some \<lparr>uid = 3, username = js ''alice'', email = js ''a@b.io'',
        password = None, status = offline, lastSeen = 0\<rparr>\<rparr>], loading =
        [\<lparr>sid = 1, handshake_token = JString (js ''t''), socket_user = Some \<lparr>uid
        = 3, username = js ''alice'', email = js ''a@b.io'', password = None, status =
        offline, lastSeen = 0\<rparr>\<rparr>], terminated = False\<rparr>) =
       Some \<lparr>sid = 1, handshake_token = JString (js ''t''), socket_user = Some \<lparr>uid
        = 3, username = js ''alice'', email = js ''a@b.io'', password = None, status =
        offline, lastSeen = 0\<rparr>\<rparr>
   \<and> socket_by_id 1 (loading \<lparr>JWT_SECRET = None, users = [\<lparr>uid = 3, username = js ''alice'', email =
        js ''a@b.io'', password = Some (js ''hash''), status = online, lastSeen = 0\<rparr>],
        messages = [], sockets = [\<lparr>sid = 1, handshake_token = JString (js ''t''),
        socket_user = Some \<lparr>uid = 3, username = js ''alice'', email = js ''a@b.io'',
        password = None, status = offline, lastSeen = 0\<rparr>\<rparr>], loading =
        [\<lparr>sid = 1, handshake_token = JString (js ''t''), socket_user = Some \<lparr>uid
        = 3, username = js ''alice'', email = js ''a@b.io'', password = None, status =
        offline, lastSeen = 0\<rparr>\<rparr>], terminated = False\<rparr>) \<noteq> None"
proof -
  have h1: "sockets \<lparr>JWT_SECRET = None, users = [\<lparr>uid = 3, username = js ''alice'', email =
        js ''a@b.io'', password = Some (js ''hash''), status = offline, lastSeen = 0\<rparr>],
        messages = [], sockets = [], loading = [], terminated = False\<rparr> = []"
    by simp
  have h2: "run (\<lambda>t k. Inr (IdObject 3))
        \<lparr>JWT_SECRET = None, users = [\<lparr>uid = 3, username = js ''alice'', email =
        js ''a@b.io'', password = Some (js ''hash''), status = offline, lastSeen = 0\<rparr>],
        messages = [], sockets = [], loading = [], terminated = False\<rparr>
        [Connection \<lparr>sid = 1, handshake_token = JString (js ''t''), socket_user =
         None\<rparr> \<lparr>now = 1000, saved_at = 1001, fresh_id = 7, find_up = True,
         write_up = True\<rparr>] =
     (\<lparr>JWT_SECRET = None, users = [\<lparr>uid = 3, username = js ''alice'', email =
        js ''a@b.io'', password = Some (js ''hash''), status = online, lastSeen = 0\<rparr>],
        messages = [], sockets = [\<lparr>sid = 1, handshake_token = JString (js ''t''),
        socket_user = Some \<lparr>uid = 3, username = js ''alice'', email = js ''a@b.io'',
        password = None, status = offline, lastSeen = 0\<rparr>\<rparr>], loading =
        [\<lparr>sid = 1, handshake_token = JString (js ''t''), socket_user = Some \<lparr>uid
        = 3, username = js ''alice'', email = js ''a@b.io'', password = None, status =
        offline, lastSeen = 0\<rparr>\<rparr>], terminated = False\<rparr>, [])"
    by (simp add: connect_def socketAuth_def secret_def User_findById_def user_by_id_def
          User_findByIdAndUpdate_def registerMessageHandlers_def js_def)
  have h3: "socket_by_id 1 (sockets \<lparr>JWT_SECRET = None, users = [\<lparr>uid = 3, username = js ''alice'', email =
        js ''a@b.io'', password = Some (js ''hash''), status = online, lastSeen = 0\<rparr>],
        messages = [], sockets = [\<lparr>sid = 1, handshake_token = JString (js ''t''),
        socket_user = Some \<lparr>uid = 3, username = js ''alice'', email = js ''a@b.io'',
        password = None, status = offline, lastSeen = 0\<rparr>\<rparr>], loading =
        [\<lparr>sid = 1, handshake_token = JString (js ''t''), socket_user = Some \<lparr>uid
        = 3, username = js ''alice'', email = js ''a@b.io'', password = None, status =
        offline, lastSeen = 0\<rparr>\<rparr>], terminated = False\<rparr>) =
       Some \<lparr>sid = 1, handshake_token = JString (js ''t''), socket_user = Some \<lparr>uid
        = 3, username = js ''alice'', email = js ''a@b.io'', password = None, status =
        offline, lastSeen = 0\<rparr>\<rparr>"
    by (simp add: socket_by_id_def)
  have "\<not> replay_completed 1 []"
    by (simp add: replay_completed_def)
  then show ?thesis
    using replay_issued_before_send_processed [OF h1 h2 h3] h2 h3 by blast
qed

text \<open>
  C7, as the claim states it, fails. A socket connects and its \<open>message:send\<close> arrives
  before the store has answered the history query: the send is processed (the message is
  stored and \<open>message:new\<close> is emitted) while the replay is still in flight, and the
  \<open>message:history\<close> batch is emitted only afterwards.
\<close>

theorem send_processed_before_replay_completes_counterexample:
  "snd (run (\<lambda>t k. Inr (IdObject 3))
        \<lparr>JWT_SECRET = None, users = [\<lparr>uid = 3, username = js ''alice'', email =
        js ''a@b.io'', password = Some (js ''hash''), status = offline, lastSeen = 0\<rparr>],
        messages = [], sockets = [], loading = [], terminated = False\<rparr>
        [Connection \<lparr>sid = 1, handshake_token = JString (js ''t''), socket_user =
         None\<rparr> \<lparr>now = 1000, saved_at = 1001, fresh_id = 7, find_up = True,
         write_up = True\<rparr>,
         MessageSend 1 \<lparr>now = 1000, saved_at = 1001, fresh_id = 7, find_up = True,
         write_up = True\<rparr> (Payload (JString (js ''hi'')))]) =
     [(ToAll, message_new \<lparr>p_id = 7, p_userId = 3, p_username = js ''alice'', p_content = js ''hi'',
        p_timestamp = 1000, p_createdAt = 1001\<rparr>)]
   \<and> loading (fst (run (\<lambda>t k. Inr (IdObject 3))
        \<lparr>JWT_SECRET = None, users = [\<lparr>uid = 3, username = js ''alice'', email =
        js ''a@b.io'', password = Some (js ''hash''), status = offline, lastSeen = 0\<rparr>],
        messages = [], sockets = [], loading = [], terminated = False\<rparr>
        [Connection \<lparr>sid = 1, handshake_token = JString (js ''t''), socket_user =
         None\<rparr> \<lparr>now = 1000, saved_at = 1001, fresh_id = 7, find_up = True,
         write_up = True\<rparr>,
         MessageSend 1 \<lparr>now = 1000, saved_at = 1001, fresh_id = 7, find_up = True,
         write_up = True\<rparr> (Payload (JString (js ''hi'')))])) =
     [\<lparr>sid = 1, handshake_token = JString (js ''t''), socket_user = Some \<lparr>uid
        = 3, username = js ''alice'', email = js ''a@b.io'', password = None, status =
        offline, lastSeen = 0\<rparr>\<rparr>]
   \<and> \<not> replay_completed 1 (snd (run (\<lambda>t k. Inr (IdObject 3))
        \<lparr>JWT_SECRET = None, users = [\<lparr>uid = 3, username = js ''alice'', email =
        js ''a@b.io'', password = Some (js ''hash''), status = offline, lastSeen = 0\<rparr>],
        messages = [], sockets = [], loading = [], terminated = False\<rparr>
        [Connection \<lparr>sid = 1, handshake_token = JString (js ''t''), socket_user =
         None\<rparr> \<lparr>now = 1000, saved_at = 1001, fresh_id = 7, find_up = True,
         write_up = True\<rparr>,
         MessageSend 1 \<lparr>now = 1000, saved_at = 1001, fresh_id = 7, find_up = True,
         write_up = True\<rparr> (Payload (JString (js ''hi'')))]))
   \<and> snd (run (\<lambda>t k. Inr (IdObject 3))
        \<lparr>JWT_SECRET = None, users = [\<lparr>uid = 3, username = js ''alice'', email =
        js ''a@b.io'', password = Some (js ''hash''), status = offline, lastSeen = 0\<rparr>],
        messages = [], sockets = [], loading = [], terminated = False\<rparr>
        [Connection \<lparr>sid = 1, handshake_token = JString (js ''t''), socket_user =
         None\<rparr> \<lparr>now = 1000, saved_at = 1001, fresh_id = 7, find_up = True,
         write_up = True\<rparr>,
         MessageSend 1 \<lparr>now = 1000, saved_at = 1001, fresh_id = 7, find_up = True,
         write_up = True\<rparr> (Payload (JString (js ''hi''))),
         HistoryLoaded 1 \<lparr>now = 1000, saved_at = 1001, fresh_id = 7, find_up = True,
         write_up = True\<rparr>]) =
     [(ToAll, message_new \<lparr>p_id = 7, p_userId = 3, p_username = js ''alice'', p_content = js ''hi'',
        p_timestamp = 1000, p_createdAt = 1001\<rparr>),
      (ToSocket 1, message_history [\<lparr>p_id = 7, p_userId = 3, p_username = js ''alice'', p_content = js ''hi'',
        p_timestamp = 1000, p_createdAt = 1001\<rparr>])]"
proof -
  have name: "trim (js ''alice'') = js ''alice''"
    using username_valid_alice by (simp add: username_valid_def)
  have body: "trim (js ''hi'') = js ''hi''"
    by (simp add: trim_def js_def is_white_space_def)
  have c: "run (\<lambda>t k. Inr (IdObject 3))
        \<lparr>JWT_SECRET = None, users = [\<lparr>uid = 3, username = js ''alice'', email =
        js ''a@b.io'', password = Some (js ''hash''), status = offline, lastSeen = 0\<rparr>],
        messages = [], sockets = [], loading = [], terminated = False\<rparr>
        [Connection \<lparr>sid = 1, handshake_token = JString (js ''t''), socket_user =
         None\<rparr> \<lparr>now = 1000, saved_at = 1001, fresh_id = 7, find_up = True,
         write_up = True\<rparr>] =
     (\<lparr>JWT_SECRET = None, users = [\<lparr>uid = 3, username = js ''alice'', email =
        js ''a@b.io'', password = Some (js ''hash''), status = online, lastSeen = 0\<rparr>],
        messages = [], sockets = [\<lparr>sid = 1, handshake_token = JString (js ''t''),
        socket_user = Some \<lparr>uid = 3, username = js ''alice'', email = js ''a@b.io'',
        password = None, status = offline, lastSeen = 0\<rparr>\<rparr>], loading =
        [\<lparr>sid = 1, handshake_token = JString (js ''t''), socket_user = Some \<lparr>uid
        = 3, username = js ''alice'', email = js ''a@b.io'', password = None, status =
        offline, lastSeen = 0\<rparr>\<rparr>], terminated = False\<rparr>, [])"
    by (simp add: connect_def socketAuth_def secret_def User_findById_def user_by_id_def
          User_findByIdAndUpdate_def registerMessageHandlers_def js_def)
  have guard: "\<not> content_missing (JString (js ''hi''))"
    using body by (simp add: content_missing_JString js_def)
  have send: "handleMessageSend \<lparr>now = 1000, saved_at = 1001, fresh_id = 7, find_up = True, write_up = True\<rparr> []
      \<lparr>sid = 1, handshake_token = JString (js ''t''), socket_user = Some \<lparr>uid
        = 3, username = js ''alice'', email = js ''a@b.io'', password = None, status =
        offline, lastSeen = 0\<rparr>\<rparr> (Payload (JString (js ''hi''))) =
    Inr ([\<lparr>m_id = 7, m_userId = 3, m_username = js ''alice'', m_content = js ''hi'',
            m_timestamp = 1000, m_createdAt = 1001, m_updatedAt = 1001\<rparr>],
         [(ToAll, message_new \<lparr>p_id = 7, p_userId = 3, p_username = js ''alice'', p_content = js ''hi'',
        p_timestamp = 1000, p_createdAt = 1001\<rparr>)])"
    using guard name body
    by (simp add: handleMessageSend_def save_def stored_def validate_def new_Message_def js_def
          Let_def is_high_surrogate_def is_low_surrogate_def)
  have two: "(run (\<lambda>t k. Inr (IdObject 3))
        \<lparr>JWT_SECRET = None, users = [\<lparr>uid = 3, username = js ''alice'', email =
        js ''a@b.io'', password = Some (js ''hash''), status = offline, lastSeen = 0\<rparr>],
        messages = [], sockets = [], loading = [], terminated = False\<rparr>
        [Connection \<lparr>sid = 1, handshake_token = JString (js ''t''), socket_user =
         None\<rparr> \<lparr>now = 1000, saved_at = 1001, fresh_id = 7, find_up = True,
         write_up = True\<rparr>,
         MessageSend 1 \<lparr>now = 1000, saved_at = 1001, fresh_id = 7, find_up = True,
         write_up = True\<rparr> (Payload (JString (js ''hi'')))]) =
     (\<lparr>JWT_SECRET = None, users = [\<lparr>uid = 3, username = js ''alice'', email =
        js ''a@b.io'', password = Some (js ''hash''), status = online, lastSeen = 0\<rparr>],
        messages = [], sockets = [\<lparr>sid = 1, handshake_token = JString (js ''t''),
        socket_user = Some \<lparr>uid = 3, username = js ''alice'', email = js ''a@b.io'',
        password = None, status = offline, lastSeen = 0\<rparr>\<rparr>], loading =
        [\<lparr>sid = 1, handshake_token = JString (js ''t''), socket_user = Some \<lparr>uid
        = 3, username = js ''alice'', email = js ''a@b.io'', password = None, status =
        offline, lastSeen = 0\<rparr>\<rparr>], terminated = False\<rparr>\<lparr>messages := [\<lparr>m_id = 7, m_userId = 3, m_username = js ''alice'', m_content = js ''hi'',
            m_timestamp = 1000, m_createdAt = 1001, m_updatedAt = 1001\<rparr>]\<rparr>,
      [(ToAll, message_new \<lparr>p_id = 7, p_userId = 3, p_username = js ''alice'', p_content = js ''hi'',
        p_timestamp = 1000, p_createdAt = 1001\<rparr>)])"
    using c send by (simp add: socket_by_id_def connect_def)
  have three: "snd (run (\<lambda>t k. Inr (IdObject 3))
        \<lparr>JWT_SECRET = None, users = [\<lparr>uid = 3, username = js ''alice'', email =
        js ''a@b.io'', password = Some (js ''hash''), status = offline, lastSeen = 0\<rparr>],
        messages = [], sockets = [], loading = [], terminated = False\<rparr>
        [Connection \<lparr>sid = 1, handshake_token = JString (js ''t''), socket_user =
         None\<rparr> \<lparr>now = 1000, saved_at = 1001, fresh_id = 7, find_up = True,
         write_up = True\<rparr>,
         MessageSend 1 \<lparr>now = 1000, saved_at = 1001, fresh_id = 7, find_up = True,
         write_up = True\<rparr> (Payload (JString (js ''hi''))),
         HistoryLoaded 1 \<lparr>now = 1000, saved_at = 1001, fresh_id = 7, find_up = True,
         write_up = True\<rparr>]) =
     [(ToAll, message_new \<lparr>p_id = 7, p_userId = 3, p_username = js ''alice'', p_content = js ''hi'',
        p_timestamp = 1000, p_createdAt = 1001\<rparr>),
      (ToSocket 1, message_history [\<lparr>p_id = 7, p_userId = 3, p_username = js ''alice'', p_content = js ''hi'',
        p_timestamp = 1000, p_createdAt = 1001\<rparr>])]"
    using c send
    by (simp add: socket_by_id_def connect_def handleLoadMessages_def
          find_sort_limit_select_def select_fields_def)
  show ?thesis
    using two three by (simp add: replay_completed_def)
qed

end
